theory Spec2Isabelle
  imports Main "HOL-Library.Word"
begin

unbundle bit_operations_syntax

section \<open>Python values used by the tools\<close>

text \<open>
  A Python \<open>str\<close> is modelled as a \<open>string\<close>: a list of characters, each one a code
  point below 256. The exception classes that the code under study names in an
  \<open>except\<close> clause, or that the standard-library calls it makes can raise, are the
  constructors of \<open>exn_class\<close>; an exception is its class with its message
  (\<open>str(e)\<close>).
\<close>

datatype exn_class =
    ValueError | BinasciiError | JSONDecodeError | SyntaxError | TypeError
  | RecursionError | MemoryError | OSError

type_synonym exn = "exn_class \<times> string"

text \<open>
  \<open>isinstance(e, cls)\<close> for the classes above: \<open>binascii.Error\<close> and
  \<open>json.JSONDecodeError\<close> derive from \<open>ValueError\<close>; every class derives from
  \<open>Exception\<close>, which is why \<open>except Exception\<close> needs no predicate here.
\<close>

fun exn_isinstance :: "exn_class \<Rightarrow> exn_class \<Rightarrow> bool" where
  "exn_isinstance BinasciiError ValueError = True"
| "exn_isinstance JSONDecodeError ValueError = True"
| "exn_isinstance c d = (c = d)"

type_synonym byte = "8 word"

subsection \<open>String operations of the Python runtime\<close>

text \<open>\<open>s.startswith(p)\<close>, for \<open>str\<close> and for \<open>bytes\<close>.\<close>

fun startswith :: "'a list \<Rightarrow> 'a list \<Rightarrow> bool" where
  "startswith s [] = True"
| "startswith [] (p # ps) = False"
| "startswith (c # s) (p # ps) = (c = p \<and> startswith s ps)"

text \<open>\<open>sub in s\<close>, for \<open>str\<close> and for \<open>bytes\<close>.\<close>

fun contains :: "'a list \<Rightarrow> 'a list \<Rightarrow> bool" where
  "contains [] sub = (sub = [])"
| "contains (c # s) sub = (startswith (c # s) sub \<or> contains s sub)"

text \<open>
  \<open>s.split(sep, 1)[1]\<close> for a non-empty \<open>sep\<close> that occurs in \<open>s\<close>: what follows the
  first occurrence of \<open>sep\<close>. The source takes the element only under the guard
  \<open>sep in s\<close>; without an occurrence the list has one element and the index is out of
  range, which is \<open>None\<close> here.
\<close>

fun split_after :: "'a list \<Rightarrow> 'a list \<Rightarrow> 'a list option" where
  "split_after [] sep = (if sep = [] then Some [] else None)"
| "split_after (c # s) sep =
     (if startswith (c # s) sep then Some (drop (length sep) (c # s))
      else split_after s sep)"

text \<open>
  \<open>str.isspace\<close> on one character, which is also what \<open>\s\<close> matches in a \<open>str\<close>
  pattern: the code points 9 to 13, 28 to 32, 133 and 160 (below 256).
\<close>

definition is_space :: "char \<Rightarrow> bool" where
  "is_space c =
     (let n = (of_char c :: nat)
      in (9 \<le> n \<and> n \<le> 13) \<or> (28 \<le> n \<and> n \<le> 32) \<or> n = 133 \<or> n = 160)"

text \<open>\<open>re.sub(r'\s+', '', s)\<close>: every run of whitespace is deleted.\<close>

definition remove_whitespace :: "string \<Rightarrow> string" where
  "remove_whitespace s = filter (\<lambda>c. \<not> is_space c) s"

text \<open>Decimal text of a natural number and of an integer (\<open>str(n)\<close>).\<close>

definition digit_char :: "nat \<Rightarrow> char" where
  "digit_char d = char_of (of_char CHR ''0'' + d)"

fun str_of_nat :: "nat \<Rightarrow> string" where
  "str_of_nat n = (if n < 10 then [digit_char n] else str_of_nat (n div 10) @ [digit_char (n mod 10)])"

declare str_of_nat.simps [simp del]

definition str_of_int :: "int \<Rightarrow> string" where
  "str_of_int i = (if i < 0 then CHR ''-'' # str_of_nat (nat (- i)) else str_of_nat (nat i))"

section \<open>Base64 decoding (\<open>base64.b64decode\<close> of the standard library)\<close>

text \<open>
  \<open>base64.b64decode(s)\<close> with the default \<open>validate=False\<close>, as CPython implements
  it: a \<open>str\<close> argument is encoded as ASCII (a \<open>ValueError\<close> when it has a character
  above 127), and \<open>binascii.a2b_base64\<close> runs in its non-strict mode. The loop keeps
  the position in the current group of four (\<open>quad_pos\<close>), the run of padding seen
  (\<open>pads\<close>) and the bits left over (\<open>leftchar\<close>), skips every character outside the
  alphabet, stops at a complete padding, and fails at the end of the input when a
  group is open.
\<close>

definition table_a2b_base64 :: "char \<Rightarrow> byte option" where
  "table_a2b_base64 c =
     (let n = (of_char c :: nat) in
      if 65 \<le> n \<and> n \<le> 90 then Some (of_nat (n - 65))
      else if 97 \<le> n \<and> n \<le> 122 then Some (of_nat (n - 71))
      else if 48 \<le> n \<and> n \<le> 57 then Some (of_nat (n + 4))
      else if c = CHR ''+'' then Some 62
      else if c = CHR ''/'' then Some 63
      else None)"

fun a2b_base64_loop :: "nat \<Rightarrow> nat \<Rightarrow> byte \<Rightarrow> byte list \<Rightarrow> string \<Rightarrow> exn + byte list" where
  "a2b_base64_loop quad_pos pads leftchar out [] =
     (if quad_pos \<noteq> 0 then
        (if quad_pos = 1 then
           Inl (BinasciiError,
             ''Invalid base64-encoded string: number of data characters ('' @
             str_of_nat (length out div 3 * 4 + 1) @
             '') cannot be 1 more than a multiple of 4'')
         else Inl (BinasciiError, ''Incorrect padding''))
      else Inr out)"
| "a2b_base64_loop quad_pos pads leftchar out (c # cs) =
     (if c = CHR ''='' then
        (if quad_pos \<ge> 2 then
           (if quad_pos + (pads + 1) \<ge> 4 then Inr out
            else a2b_base64_loop quad_pos (pads + 1) leftchar out cs)
         else a2b_base64_loop quad_pos pads leftchar out cs)
      else
        (case table_a2b_base64 c of
           None \<Rightarrow> a2b_base64_loop quad_pos pads leftchar out cs
         | Some this_ch \<Rightarrow>
             (if quad_pos = 0 then a2b_base64_loop 1 0 this_ch out cs
              else if quad_pos = 1 then
                a2b_base64_loop 2 0 (this_ch AND 0x0f)
                  (out @ [push_bit 2 leftchar OR drop_bit 4 this_ch]) cs
              else if quad_pos = 2 then
                a2b_base64_loop 3 0 (this_ch AND 0x03)
                  (out @ [push_bit 4 leftchar OR drop_bit 2 this_ch]) cs
              else
                a2b_base64_loop 0 0 0
                  (out @ [push_bit 6 leftchar OR this_ch]) cs)))"

definition a2b_base64 :: "string \<Rightarrow> exn + byte list" where
  "a2b_base64 s = a2b_base64_loop 0 0 0 [] s"

definition b64decode :: "string \<Rightarrow> exn + byte list" where
  "b64decode s =
     (if \<exists>c \<in> set s. (of_char c :: nat) > 127
      then Inl (ValueError, ''string argument should contain only ASCII characters'')
      else a2b_base64 s)"

section \<open>The content classifier\<close>

text \<open>
  The cleaning that the classifier and the persister share, statement by statement:
  the text after the first \<open>base64,\<close> when there is one, without whitespace, padded
  with \<open>=\<close> to a length that is a multiple of four.
\<close>

definition strip_base64_prefix :: "string \<Rightarrow> string" where
  "strip_base64_prefix image_data =
     (if contains image_data ''base64,''
      then (case split_after image_data ''base64,'' of Some r \<Rightarrow> r | None \<Rightarrow> image_data)
      else image_data)"

definition add_padding :: "string \<Rightarrow> string" where
  "add_padding clean_data =
     (let missing_padding = length clean_data mod 4
      in if missing_padding \<noteq> 0
         then clean_data @ replicate (4 - missing_padding) CHR ''=''
         else clean_data)"

definition clean_base64 :: "string \<Rightarrow> string" where
  "clean_base64 image_data = add_padding (remove_whitespace (strip_base64_prefix image_data))"

text \<open>
  \<open>GoogleSearchTool._is_base64_image\<close>. The \<open>try\<close> block turns every exception of
  the decode into \<open>False\<close>.
\<close>

definition is_base64_image :: "string \<Rightarrow> bool" where
  "is_base64_image image_data =
     (if image_data = [] then False
      else if startswith image_data ''data:image/'' \<and> contains image_data ''base64,'' then True
      else if startswith image_data ''http://'' \<or> startswith image_data ''https://''
              \<or> startswith image_data ''//'' \<or> startswith image_data ''/'' then False
      else (case b64decode (clean_base64 image_data) of
              Inr image_bytes \<Rightarrow> True
            | Inl e \<Rightarrow> False))"

text \<open>
  The decision policy as the specification words it, for comparison with the code:
  a data URI (the prefix \<open>data:image/\<close> and a \<open>base64,\<close> marker) is accepted without
  decoding; otherwise a string that starts with \<open>http://\<close>, \<open>https://\<close>, \<open>//\<close> or
  \<open>/\<close> is rejected; otherwise the prefix up to \<open>base64,\<close> is stripped, the whitespace
  removed, the padding added, and the answer is whether the decode succeeds.
\<close>

definition isBase64Image_policy :: "string \<Rightarrow> bool" where
  "isBase64Image_policy data =
     (if startswith data ''data:image/'' \<and> contains data ''base64,'' then True
      else if startswith data ''http://'' \<or> startswith data ''https://''
              \<or> startswith data ''//'' \<or> startswith data ''/'' then False
      else (case b64decode (add_padding (remove_whitespace (strip_base64_prefix data))) of
              Inr decoded \<Rightarrow> True
            | Inl err \<Rightarrow> False))"

section \<open>The file system\<close>

text \<open>
  The tools write through \<open>os.makedirs\<close> and \<open>open\<close>. A file system is the files it
  holds, the directories made, and what it refuses: for each path, the \<open>OSError\<close> that
  making the directory, opening the file for writing or writing to it raises there, if
  any. A binary file holds bytes, a text file characters.
\<close>

datatype content = Binary "byte list" | Text string

record filesystem =
  files :: "string \<rightharpoonup> content"
  dirs :: "string set"
  makedirs_error :: "string \<Rightarrow> exn option"
  open_error :: "string \<Rightarrow> exn option"
  write_error :: "string \<Rightarrow> exn option"

text \<open>\<open>os.makedirs(path, exist_ok=True)\<close>.\<close>

definition makedirs :: "filesystem \<Rightarrow> string \<Rightarrow> exn + filesystem" where
  "makedirs fs path =
     (case makedirs_error fs path of
        Some e \<Rightarrow> Inl e
      | None \<Rightarrow> Inr (fs\<lparr>dirs := insert path (dirs fs)\<rparr>))"

text \<open>
  \<open>with open(path, 'w' or 'wb') as f: f.write(...)\<close>: opening creates the file or
  empties it (\<open>blank\<close> is \<open>Binary []\<close> or \<open>Text []\<close>); a write that raises leaves it so.
  The result is the file system afterwards and the exception raised, if any.
\<close>

definition write_file :: "filesystem \<Rightarrow> string \<Rightarrow> content \<Rightarrow> content \<Rightarrow> filesystem \<times> exn option" where
  "write_file fs path blank data =
     (case open_error fs path of
        Some e \<Rightarrow> (fs, Some e)
      | None \<Rightarrow>
          (case write_error fs path of
             Some e \<Rightarrow> (fs\<lparr>files := (files fs)(path \<mapsto> blank)\<rparr>, Some e)
           | None \<Rightarrow> (fs\<lparr>files := (files fs)(path \<mapsto> data)\<rparr>, None)))"

text \<open>\<open>os.path.join(a, b)\<close> of \<open>posixpath\<close>.\<close>

definition path_join :: "string \<Rightarrow> string \<Rightarrow> string" where
  "path_join a b =
     (if startswith b ''/'' then b
      else if a = [] \<or> last a = CHR ''/'' then a @ b
      else a @ ''/'' @ b)"

section \<open>The image persister\<close>

text \<open>
  \<open>\w\<close> of a \<open>str\<close> pattern on one character below 256: the letters, the digits and the
  numeric characters of Latin-1, and the underscore.
\<close>

definition is_word :: "char \<Rightarrow> bool" where
  "is_word c =
     (let n = (of_char c :: nat) in
      (48 \<le> n \<and> n \<le> 57) \<or> (65 \<le> n \<and> n \<le> 90) \<or> n = 95 \<or> (97 \<le> n \<and> n \<le> 122)
      \<or> n = 170 \<or> n = 178 \<or> n = 179 \<or> n = 181 \<or> n = 185 \<or> n = 186
      \<or> (188 \<le> n \<and> n \<le> 190) \<or> (192 \<le> n \<and> n \<le> 214) \<or> (216 \<le> n \<and> n \<le> 246)
      \<or> (248 \<le> n \<and> n \<le> 255))"

text \<open>\<open>s.strip()\<close>.\<close>

definition strip :: "string \<Rightarrow> string" where
  "strip s = rev (dropWhile is_space (rev (dropWhile is_space s)))"

text \<open>
  \<open>re.sub(r'[-\s]+', '_', name)\<close>: each run of hyphens and whitespace becomes one
  underscore. The flag says that the previous character was in a run.
\<close>

fun collapse_separators :: "bool \<Rightarrow> string \<Rightarrow> string" where
  "collapse_separators in_run [] = []"
| "collapse_separators in_run (c # cs) =
     (if c = CHR ''-'' \<or> is_space c
      then (if in_run then collapse_separators True cs
            else CHR ''_'' # collapse_separators True cs)
      else c # collapse_separators False cs)"

text \<open>\<open>GoogleSearchTool._sanitize_filename\<close>.\<close>

definition GoogleSearchTool_sanitize_filename :: "string \<Rightarrow> string" where
  "GoogleSearchTool_sanitize_filename name =
     (let name1 = strip (filter (\<lambda>c. is_word c \<or> is_space c \<or> c = CHR ''-'') name);
          name2 = collapse_separators False name1
      in take 100 name2)"

text \<open>The format detection of \<open>_save_base64_image\<close>, in the order of the source.\<close>

definition detect_image_format :: "byte list \<Rightarrow> string" where
  "detect_image_format image_bytes =
     (if startswith image_bytes [0x89, 0x50, 0x4E, 0x47, 0x0D, 0x0A, 0x1A, 0x0A] then ''png''
      else if startswith image_bytes [0x47, 0x49, 0x46, 0x38] then ''gif''
      else if startswith image_bytes [0x52, 0x49, 0x46, 0x46]
              \<and> contains image_bytes [0x57, 0x45, 0x42, 0x50] then ''webp''
      else if startswith image_bytes [0xFF, 0xD8, 0xFF] then ''jpg''
      else ''jpg'')"

text \<open>The string of the \<open>except\<close> branch: \<open>f"Failed to save '{title}': {str(e)}"\<close>.\<close>

definition failed_to_save :: "string \<Rightarrow> exn \<Rightarrow> string" where
  "failed_to_save title e = ''Failed to save '' @ [CHR 0x27] @ title @ [CHR 0x27] @ '': '' @ snd e"

text \<open>
  \<open>GoogleSearchTool._save_base64_image\<close>: the whole body is one \<open>try\<close> block whose
  \<open>except Exception\<close> returns the failure string, so the function returns the file
  system afterwards and a string, and never raises.
\<close>

definition save_base64_image ::
  "filesystem \<Rightarrow> string \<Rightarrow> string \<Rightarrow> string \<Rightarrow> string \<Rightarrow> filesystem \<times> string" where
  "save_base64_image fs image_data folder_path filename_prefix title =
     (case b64decode (clean_base64 image_data) of
        Inl e \<Rightarrow> (fs, failed_to_save title e)
      | Inr image_bytes \<Rightarrow>
          (let image_format = detect_image_format image_bytes;
               sanitized_title = GoogleSearchTool_sanitize_filename title;
               filename = filename_prefix @ ''_'' @ sanitized_title @ ''.'' @ image_format
           in case makedirs fs folder_path of
                Inl e \<Rightarrow> (fs, failed_to_save title e)
              | Inr fs1 \<Rightarrow>
                  (let file_path = path_join folder_path filename
                   in case write_file fs1 file_path (Binary []) (Binary image_bytes) of
                        (fs2, Some e) \<Rightarrow> (fs2, failed_to_save title e)
                      | (fs2, None) \<Rightarrow> (fs2, ''Saved: '' @ file_path))))"

section \<open>The link manifest writer\<close>

record link_info =
  link_url :: string
  link_title :: string
  link_position :: int

text \<open>
  What one turn of the loop over \<open>enumerate(image_links, 1)\<close> writes: the three
  \<open>f.write\<close> calls for the entry \<open>link_info\<close> numbered \<open>i\<close>.
\<close>

definition link_block :: "nat \<Rightarrow> link_info \<Rightarrow> string" where
  "link_block i link_info =
     str_of_nat i @ ''. Title: '' @ link_title link_info @ [CHR 0x0A] @
     ''   URL: '' @ link_url link_info @ [CHR 0x0A] @
     ''   Position: '' @ str_of_int (link_position link_info) @ [CHR 0x0A, CHR 0x0A]"

text \<open>The loop itself, from the number \<open>i\<close> on.\<close>

fun link_blocks :: "nat \<Rightarrow> link_info list \<Rightarrow> string" where
  "link_blocks i [] = []"
| "link_blocks i (link_info # rest) = link_block i link_info @ link_blocks (Suc i) rest"

text \<open>What is written to the manifest; \<open>now\<close> is \<open>datetime.datetime.now().isoformat()\<close>.\<close>

definition manifest_text :: "string \<Rightarrow> link_info list \<Rightarrow> string" where
  "manifest_text now image_links =
     ''# Image Links from Google Search'' @ [CHR 0x0A] @
     ''# Generated: '' @ now @ [CHR 0x0A, CHR 0x0A] @
     link_blocks 1 image_links"

text \<open>
  \<open>GoogleSearchTool._save_image_links\<close>. The call of \<open>os.makedirs\<close> stands before
  the \<open>try\<close>: its exception leaves the function (\<open>Inl\<close>); one of the write is caught
  and reported in the string.
\<close>

definition save_image_links ::
  "filesystem \<Rightarrow> string \<Rightarrow> link_info list \<Rightarrow> string \<Rightarrow> exn + (filesystem \<times> string)" where
  "save_image_links fs now image_links folder_path =
     (if image_links = [] then Inr (fs, ''No image links to save'')
      else
        (case makedirs fs folder_path of
           Inl e \<Rightarrow> Inl e
         | Inr fs1 \<Rightarrow>
             (let links_file = path_join folder_path ''image_links.txt''
              in case write_file fs1 links_file (Text []) (Text (manifest_text now image_links)) of
                   (fs2, None) \<Rightarrow>
                     Inr (fs2, ''Saved '' @ str_of_nat (length image_links) @
                               '' image links to: '' @ links_file)
                 | (fs2, Some e) \<Rightarrow> Inr (fs2, ''Failed to save image links: '' @ snd e))))"

section \<open>The image search: base64 images against links\<close>

text \<open>
  One entry of \<open>results["images"]\<close>: a field is \<open>None\<close> when the key is absent, and the
  source's \<open>item.get\<close> gives its default then.
\<close>

record image_item =
  item_image :: "string option"
  item_title :: "string option"
  item_position :: "int option"

record base64_entry =
  b64_data :: string
  b64_title :: string
  b64_position :: int

text \<open>
  The three reads at the head of the first loop of
  \<open>GoogleSearchTool._handle_image_search\<close>: \<open>item.get("image", "")\<close>,
  \<open>item.get("title", "untitled")\<close> and \<open>item.get("position", 0)\<close>; and the entry
  appended to each of the two lists.
\<close>

definition image_data_of :: "image_item \<Rightarrow> string" where
  "image_data_of item = (case item_image item of Some d \<Rightarrow> d | None \<Rightarrow> [])"

definition title_of :: "image_item \<Rightarrow> string" where
  "title_of item = (case item_title item of Some t \<Rightarrow> t | None \<Rightarrow> ''untitled'')"

definition position_of :: "image_item \<Rightarrow> int" where
  "position_of item = (case item_position item of Some p \<Rightarrow> p | None \<Rightarrow> 0)"

definition base64_entry_of :: "image_item \<Rightarrow> base64_entry" where
  "base64_entry_of item =
     \<lparr>b64_data = image_data_of item, b64_title = title_of item, b64_position = position_of item\<rparr>"

definition link_info_of :: "image_item \<Rightarrow> link_info" where
  "link_info_of item =
     \<lparr>link_url = image_data_of item, link_title = title_of item, link_position = position_of item\<rparr>"

text \<open>The first loop, with the two lists it appends to as accumulators.\<close>

fun separate_images ::
  "image_item list \<Rightarrow> base64_entry list \<Rightarrow> link_info list \<Rightarrow> base64_entry list \<times> link_info list" where
  "separate_images [] base64_images image_links = (base64_images, image_links)"
| "separate_images (item # items) base64_images image_links =
     (if is_base64_image (image_data_of item)
      then separate_images items (base64_images @ [base64_entry_of item]) image_links
      else separate_images items base64_images (image_links @ [link_info_of item]))"

text \<open>\<open>f"{position:02d}"\<close>.\<close>

definition format_02d :: "int \<Rightarrow> string" where
  "format_02d n =
     (if n < 0 then str_of_int n
      else if n < 10 then CHR ''0'' # str_of_int n
      else str_of_int n)"

text \<open>The second loop: one call of the persister per base64 entry, its result appended.\<close>

fun save_base64_images ::
  "filesystem \<Rightarrow> string \<Rightarrow> base64_entry list \<Rightarrow> string list \<Rightarrow> filesystem \<times> string list" where
  "save_base64_images fs folder_path [] saved_images = (fs, saved_images)"
| "save_base64_images fs folder_path (item # items) saved_images =
     (case save_base64_image fs (b64_data item) folder_path
             (format_02d (b64_position item)) (b64_title item) of
        (fs', result) \<Rightarrow> save_base64_images fs' folder_path items (saved_images @ [result]))"

text \<open>\<open>sum(1 for r in saved_images if r.startswith("Saved:"))\<close>.\<close>

definition success_count :: "string list \<Rightarrow> nat" where
  "success_count saved_images = length (filter (\<lambda>r. startswith r ''Saved:'') saved_images)"

section \<open>The error branch of the two tools\<close>

text \<open>
  A \<open>requests.exceptions.RequestException\<close> as the \<open>except\<close> clauses read it: \<open>str(e)\<close>,
  and the text of \<open>e.response\<close> when the exception carries a response (the attribute
  is always there, and is \<open>None\<close> otherwise).
\<close>

record request_exception =
  exc_str :: string
  exc_response_text :: "string option"

text \<open>\<open>getattr(e.response, 'text', str(e))\<close>.\<close>

definition response_text_or_str :: "request_exception \<Rightarrow> string" where
  "response_text_or_str e = (case exc_response_text e of Some t \<Rightarrow> t | None \<Rightarrow> exc_str e)"

text \<open>The \<open>except\<close> branch of \<open>ScrapeUrlTool._run\<close>.\<close>

definition ScrapeUrlTool_run_except :: "request_exception \<Rightarrow> string" where
  "ScrapeUrlTool_run_except e =
     (let error_detail = take 1000 (response_text_or_str e)
      in ''Error: Request failed. Details: '' @ error_detail)"

text \<open>The \<open>except\<close> branch of \<open>GoogleSearchTool._run\<close>.\<close>

definition GoogleSearchTool_run_except :: "request_exception \<Rightarrow> string" where
  "GoogleSearchTool_run_except e =
     ''Error during Google Search API call: '' @ response_text_or_str e"

section \<open>The parameter coercer\<close>

subsection \<open>Python values\<close>

text \<open>
  The values that the coercer receives and returns. A \<open>float\<close> is kept as the text
  it was parsed from (\<open>PyFloat t\<close> stands for \<open>float(t)\<close>). A \<open>dict\<close> is the list of
  its items in insertion order, with no key twice.
\<close>

datatype pyval =
    PyNone | PyBool bool | PyInt int | PyFloat string | PyStr string | PyBytes "byte list"
  | PyList "pyval list" | PyTuple "pyval list" | PySet "pyval list"
  | PyDict "(pyval \<times> pyval) list"

text \<open>\<open>d[key] = value\<close> for a \<open>str\<close> key: a key that is present keeps its place.\<close>

fun dict_set :: "(pyval \<times> pyval) list \<Rightarrow> string \<Rightarrow> pyval \<Rightarrow> (pyval \<times> pyval) list" where
  "dict_set [] key val = [(PyStr key, val)]"
| "dict_set ((k, v) # d) key val =
     (if k = PyStr key then (k, val) # d else (k, v) # dict_set d key val)"

text \<open>
  What the coercer depends on in the interpreter: how many nested JSON containers
  the scanner can still enter before the recursion limit is reached, the limit on
  the number of digits of an integer read from text (\<open>sys.get_int_max_str_digits()\<close>,
  4300 unless changed, 0 for no limit), and \<open>ast.literal_eval\<close>, which is not
  modelled further: it returns a value or raises.
\<close>

record runtime =
  recursion_limit :: nat
  int_max_str_digits :: nat
  literal_eval :: "string \<Rightarrow> exn + pyval"

subsection \<open>\<open>json.loads\<close>\<close>

text \<open>
  The scanner of the \<open>json\<close> module, as \<open>_json.c\<close> implements it and
  \<open>json/scanner.py\<close> and \<open>json/decoder.py\<close> describe it. It works on the whole text
  and an index. A scan ends with a value and the index after it, with
  \<open>StopIteration\<close> at an index (no value starts there), or with an exception. Two
  more outcomes belong to the model only: \<open>Unmodelled\<close> for a \<open>\u\<close> escape of a code
  point above 255, which has no character here, and \<open>OutOfFuel\<close> when the bound on
  the number of nested calls is used up.
\<close>

datatype 'a scanned = Scanned 'a nat | StopIteration nat | Raise exn | Unmodelled | OutOfFuel

definition is_json_whitespace :: "char \<Rightarrow> bool" where
  "is_json_whitespace c \<longleftrightarrow> c = CHR '' '' \<or> c = CHR 0x09 \<or> c = CHR 0x0A \<or> c = CHR 0x0D"

definition skip_whitespace :: "string \<Rightarrow> nat \<Rightarrow> nat" where
  "skip_whitespace s idx = idx + length (takeWhile is_json_whitespace (drop idx s))"

definition char_at :: "string \<Rightarrow> nat \<Rightarrow> char option" where
  "char_at s idx = (if idx < length s then Some (s ! idx) else None)"

text \<open>\<open>JSONDecodeError(msg, doc, pos)\<close>: the message carries the line, column and index.\<close>

definition json_decode_error :: "string \<Rightarrow> string \<Rightarrow> nat \<Rightarrow> exn" where
  "json_decode_error msg doc pos =
     (let lineno = length (filter (\<lambda>c. c = CHR 0x0A) (take pos doc)) + 1;
          colno = length (takeWhile (\<lambda>c. c \<noteq> CHR 0x0A) (rev (take pos doc))) + 1
      in (JSONDecodeError,
          msg @ '': line '' @ str_of_nat lineno @ '' column '' @ str_of_nat colno @
          '' (char '' @ str_of_nat pos @ '')''))"

definition is_digit :: "char \<Rightarrow> bool" where
  "is_digit c \<longleftrightarrow> 48 \<le> (of_char c :: nat) \<and> (of_char c :: nat) \<le> 57"

definition hex_value :: "char \<Rightarrow> nat option" where
  "hex_value c =
     (let n = (of_char c :: nat) in
      if 48 \<le> n \<and> n \<le> 57 then Some (n - 48)
      else if 97 \<le> n \<and> n \<le> 102 then Some (n - 87)
      else if 65 \<le> n \<and> n \<le> 70 then Some (n - 55)
      else None)"

definition backslash_escape :: "char \<Rightarrow> char option" where
  "backslash_escape c =
     (if c = CHR 0x22 \<or> c = CHR 0x5C \<or> c = CHR ''/'' then Some c
      else if c = CHR ''b'' then Some (CHR 0x08)
      else if c = CHR ''f'' then Some (CHR 0x0C)
      else if c = CHR ''n'' then Some (CHR 0x0A)
      else if c = CHR ''r'' then Some (CHR 0x0D)
      else if c = CHR ''t'' then Some (CHR 0x09)
      else None)"

text \<open>
  \<open>scanstring\<close> in strict mode, from the index \<open>pos\<close> on, where \<open>rest\<close> is the text
  from \<open>pos\<close>, \<open>begin\<close> the index of the opening quote and \<open>chunks\<close> what has been read.
\<close>

fun scanstring_loop :: "string \<Rightarrow> nat \<Rightarrow> nat \<Rightarrow> string \<Rightarrow> string \<Rightarrow> string scanned" where
  "scanstring_loop s begin pos [] chunks =
     Raise (json_decode_error ''Unterminated string starting at'' s begin)"
| "scanstring_loop s begin pos (c # rest) chunks =
     (if c = CHR 0x22 then Scanned chunks (pos + 1)
      else if c = CHR 0x5C then
        (case rest of
           [] \<Rightarrow> Raise (json_decode_error ''Unterminated string starting at'' s begin)
         | esc # rest1 \<Rightarrow>
             if esc \<noteq> CHR ''u'' then
               (case backslash_escape esc of
                  None \<Rightarrow> Raise (json_decode_error (''Invalid '' @ [CHR 0x5C] @ ''escape'') s pos)
                | Some ch \<Rightarrow> scanstring_loop s begin (pos + 2) rest1 (chunks @ [ch]))
             else
               (case rest1 of
                  h1 # h2 # h3 # h4 # r # rest2 \<Rightarrow>
                    (case (hex_value h1, hex_value h2, hex_value h3, hex_value h4) of
                       (Some d1, Some d2, Some d3, Some d4) \<Rightarrow>
                         (let uni = ((d1 * 16 + d2) * 16 + d3) * 16 + d4
                          in if uni < 256
                             then scanstring_loop s begin (pos + 6) (r # rest2)
                                    (chunks @ [char_of uni])
                             else Unmodelled)
                     | _ \<Rightarrow> Raise (json_decode_error
                                     (''Invalid '' @ [CHR 0x5C] @ ''uXXXX escape'') s (pos + 1)))
                | _ \<Rightarrow> Raise (json_decode_error
                                (''Invalid '' @ [CHR 0x5C] @ ''uXXXX escape'') s (pos + 1))))
      else if (of_char c :: nat) \<le> 0x1f then
        Raise (json_decode_error ''Invalid control character at'' s pos)
      else scanstring_loop s begin (pos + 1) rest (chunks @ [c]))"

definition scanstring :: "string \<Rightarrow> nat \<Rightarrow> string scanned" where
  "scanstring s end = scanstring_loop s (end - 1) end (drop end s) []"

text \<open>The value of a run of decimal digits.\<close>

definition int_of_digits :: "string \<Rightarrow> int" where
  "int_of_digits ds = foldl (\<lambda>n c. 10 * n + (int (of_char c) - 48)) 0 ds"

text \<open>
  \<open>int(text)\<close> for a text of decimal digits with an optional sign in front: a
  \<open>ValueError\<close> when there are more digits than the limit allows.
\<close>

definition int_from_digits :: "nat \<Rightarrow> bool \<Rightarrow> string \<Rightarrow> exn + int" where
  "int_from_digits max_digits negative ds =
     (if 0 < max_digits \<and> max_digits < length ds then
        Inl (ValueError,
             ''Exceeds the limit ('' @ str_of_nat max_digits @
             '' digits) for integer string conversion: value has '' @ str_of_nat (length ds) @
             '' digits; use sys.set_int_max_str_digits() to increase the limit'')
      else Inr (if negative then - int_of_digits ds else int_of_digits ds))"

text \<open>
  \<open>_match_number\<close>: an optional minus, then \<open>0\<close> or a run of digits that does not start
  with \<open>0\<close>; a fraction when a dot and a digit follow; an exponent when \<open>e\<close> or \<open>E\<close>, an
  optional sign and a digit follow. With a fraction or an exponent the number is a
  \<open>float\<close>, otherwise an \<open>int\<close>.
\<close>

definition match_number :: "nat \<Rightarrow> string \<Rightarrow> nat \<Rightarrow> pyval scanned" where
  "match_number max_digits s start =
     (let text = drop start s;
          negative = (text \<noteq> [] \<and> hd text = CHR ''-'');
          after_sign = (if negative then tl text else text);
          integer = (if after_sign \<noteq> [] \<and> hd after_sign = CHR ''0'' then ''0''
                     else takeWhile is_digit after_sign);
          after_integer = drop (length integer) after_sign;
          frac = (case after_integer of
                    dot # d # r \<Rightarrow>
                      if dot = CHR ''.'' \<and> is_digit d then dot # takeWhile is_digit (d # r) else []
                  | _ \<Rightarrow> []);
          after_frac = drop (length frac) after_integer;
          exponent = (case after_frac of
                   e # r \<Rightarrow>
                     if e = CHR ''e'' \<or> e = CHR ''E'' then
                       (let sign = (case r of
                                      sg # d # r1 \<Rightarrow> if sg = CHR ''-'' \<or> sg = CHR ''+'' then [sg] else []
                                    | _ \<Rightarrow> []);
                            digits = takeWhile is_digit (drop (length sign) r)
                        in if digits = [] then [] else e # sign @ digits)
                     else []
                 | _ \<Rightarrow> []);
          numstr = (if negative then ''-'' else []) @ integer @ frac @ exponent
      in if integer = [] then StopIteration start
         else if frac \<noteq> [] \<or> exponent \<noteq> [] then Scanned (PyFloat numstr) (start + length numstr)
         else (case int_from_digits max_digits negative integer of
                 Inl e \<Rightarrow> Raise e
               | Inr n \<Rightarrow> Scanned (PyInt n) (start + length numstr)))"

text \<open>\<open>s[idx:idx + len(word)] == word\<close>.\<close>

definition text_at :: "string \<Rightarrow> nat \<Rightarrow> string \<Rightarrow> bool" where
  "text_at s idx word \<longleftrightarrow> take (length word) (drop idx s) = word"

text \<open>
  \<open>scan_once\<close>, \<open>_parse_array\<close> and \<open>_parse_object\<close> with the loops they run. The first
  argument bounds the number of nested calls of the model, the second is the number
  of containers that may still be entered: entering one more is a \<open>RecursionError\<close>.
\<close>

function (sequential) scan_once :: "nat \<Rightarrow> nat \<Rightarrow> nat \<Rightarrow> string \<Rightarrow> nat \<Rightarrow> pyval scanned"
and parse_array :: "nat \<Rightarrow> nat \<Rightarrow> nat \<Rightarrow> string \<Rightarrow> nat \<Rightarrow> pyval scanned"
and parse_array_loop :: "nat \<Rightarrow> nat \<Rightarrow> nat \<Rightarrow> string \<Rightarrow> nat \<Rightarrow> pyval list \<Rightarrow> pyval scanned"
and parse_object :: "nat \<Rightarrow> nat \<Rightarrow> nat \<Rightarrow> string \<Rightarrow> nat \<Rightarrow> pyval scanned"
and parse_object_loop ::
  "nat \<Rightarrow> nat \<Rightarrow> nat \<Rightarrow> string \<Rightarrow> nat \<Rightarrow> (pyval \<times> pyval) list \<Rightarrow> pyval scanned" where
  "scan_once 0 depth max_digits s idx = OutOfFuel"
| "scan_once (Suc fuel) depth max_digits s idx =
     (case char_at s idx of
        None \<Rightarrow> StopIteration idx
      | Some c \<Rightarrow>
          if c = CHR 0x22 then
            (case scanstring s (idx + 1) of
               Scanned str next_idx \<Rightarrow> Scanned (PyStr str) next_idx
             | StopIteration i \<Rightarrow> StopIteration i
             | Raise e \<Rightarrow> Raise e
             | Unmodelled \<Rightarrow> Unmodelled
             | OutOfFuel \<Rightarrow> OutOfFuel)
          else if c = CHR 0x7B then
            (if depth = 0 then
               Raise (RecursionError,
                 ''maximum recursion depth exceeded while decoding a JSON object from a unicode string'')
             else parse_object fuel (depth - 1) max_digits s (idx + 1))
          else if c = CHR 0x5B then
            (if depth = 0 then
               Raise (RecursionError,
                 ''maximum recursion depth exceeded while decoding a JSON array from a unicode string'')
             else parse_array fuel (depth - 1) max_digits s (idx + 1))
          else if text_at s idx ''null'' then Scanned PyNone (idx + 4)
          else if text_at s idx ''true'' then Scanned (PyBool True) (idx + 4)
          else if text_at s idx ''false'' then Scanned (PyBool False) (idx + 5)
          else if text_at s idx ''NaN'' then Scanned (PyFloat ''NaN'') (idx + 3)
          else if text_at s idx ''Infinity'' then Scanned (PyFloat ''Infinity'') (idx + 8)
          else if text_at s idx ''-Infinity'' then Scanned (PyFloat ''-Infinity'') (idx + 9)
          else match_number max_digits s idx)"
| "parse_array 0 depth max_digits s idx = OutOfFuel"
| "parse_array (Suc fuel) depth max_digits s idx =
     (let idx1 = skip_whitespace s idx
      in if char_at s idx1 = Some (CHR 0x5D) then Scanned (PyList []) (idx1 + 1)
         else parse_array_loop fuel depth max_digits s idx1 [])"
| "parse_array_loop 0 depth max_digits s idx vals = OutOfFuel"
| "parse_array_loop (Suc fuel) depth max_digits s idx vals =
     (case scan_once fuel depth max_digits s idx of
        Scanned val next_idx \<Rightarrow>
          (let idx1 = skip_whitespace s next_idx
           in if char_at s idx1 = Some (CHR 0x5D) then Scanned (PyList (vals @ [val])) (idx1 + 1)
              else if char_at s idx1 \<noteq> Some (CHR '','') then
                Raise (json_decode_error ''Expecting ',' delimiter'' s idx1)
              else parse_array_loop fuel depth max_digits s (skip_whitespace s (idx1 + 1))
                     (vals @ [val]))
      | StopIteration i \<Rightarrow> StopIteration i
      | Raise e \<Rightarrow> Raise e
      | Unmodelled \<Rightarrow> Unmodelled
      | OutOfFuel \<Rightarrow> OutOfFuel)"
| "parse_object 0 depth max_digits s idx = OutOfFuel"
| "parse_object (Suc fuel) depth max_digits s idx =
     (let idx1 = skip_whitespace s idx
      in if char_at s idx1 = Some (CHR 0x7D) then Scanned (PyDict []) (idx1 + 1)
         else parse_object_loop fuel depth max_digits s idx1 [])"
| "parse_object_loop 0 depth max_digits s idx pairs = OutOfFuel"
| "parse_object_loop (Suc fuel) depth max_digits s idx pairs =
     (if char_at s idx \<noteq> Some (CHR 0x22) then
        Raise (json_decode_error ''Expecting property name enclosed in double quotes'' s idx)
      else
        (case scanstring s (idx + 1) of
           Scanned key next_idx \<Rightarrow>
             (let idx1 = skip_whitespace s next_idx
              in if char_at s idx1 \<noteq> Some (CHR '':'') then
                   Raise (json_decode_error ''Expecting ':' delimiter'' s idx1)
                 else
                   (case scan_once fuel depth max_digits s (skip_whitespace s (idx1 + 1)) of
                      Scanned val next_idx2 \<Rightarrow>
                        (let idx2 = skip_whitespace s next_idx2
                         in if char_at s idx2 = Some (CHR 0x7D) then
                              Scanned (PyDict (dict_set pairs key val)) (idx2 + 1)
                            else if char_at s idx2 \<noteq> Some (CHR '','') then
                              Raise (json_decode_error ''Expecting ',' delimiter'' s idx2)
                            else parse_object_loop fuel depth max_digits s
                                   (skip_whitespace s (idx2 + 1)) (dict_set pairs key val))
                    | StopIteration i \<Rightarrow> StopIteration i
                    | Raise e \<Rightarrow> Raise e
                    | Unmodelled \<Rightarrow> Unmodelled
                    | OutOfFuel \<Rightarrow> OutOfFuel))
         | StopIteration i \<Rightarrow> StopIteration i
         | Raise e \<Rightarrow> Raise e
         | Unmodelled \<Rightarrow> Unmodelled
         | OutOfFuel \<Rightarrow> OutOfFuel))"

  by pat_completeness auto
termination
  by (relation "measure (case_sum (case_sum fst fst) (case_sum fst (case_sum fst fst)))") auto
text \<open>
  \<open>json.loads(s)\<close> for a \<open>str\<close>: \<open>JSONDecoder.decode\<close> skips the whitespace, scans one
  value, skips the whitespace and wants the end of the text. \<open>None\<close> is the model's
  own: the text has a \<open>\u\<close> escape above 255.
\<close>

definition json_loads :: "nat \<Rightarrow> nat \<Rightarrow> string \<Rightarrow> (exn + pyval) option" where
  "json_loads depth max_digits s =
     (case scan_once (3 * length s + 3) depth max_digits s (skip_whitespace s 0) of
        Scanned obj end_idx \<Rightarrow>
          (let end1 = skip_whitespace s end_idx
           in if end1 \<noteq> length s then Some (Inl (json_decode_error ''Extra data'' s end1))
              else Some (Inr obj))
      | StopIteration i \<Rightarrow> Some (Inl (json_decode_error ''Expecting value'' s i))
      | Raise e \<Rightarrow> Some (Inl e)
      | Unmodelled \<Rightarrow> None
      | OutOfFuel \<Rightarrow> None)"

subsection \<open>String methods the coercer calls\<close>

text \<open>\<open>s.endswith(p)\<close>.\<close>

definition endswith :: "string \<Rightarrow> string \<Rightarrow> bool" where
  "endswith s p = startswith (rev s) (rev p)"

text \<open>\<open>s.split(sep)\<close> for a separator of one character: at least one piece.\<close>

fun split_on :: "char \<Rightarrow> string \<Rightarrow> string list" where
  "split_on sep [] = [[]]"
| "split_on sep (c # cs) =
     (if c = sep then [] # split_on sep cs
      else (case split_on sep cs of
              piece # pieces \<Rightarrow> (c # piece) # pieces
            | [] \<Rightarrow> [[c]]))"

text \<open>
  \<open>key, value = pair.split('=', 1)\<close> for a pair that contains \<open>=\<close>: what stands before
  the first \<open>=\<close> and what stands after it.
\<close>

definition split_pair :: "string \<Rightarrow> string \<times> string" where
  "split_pair pair =
     (takeWhile (\<lambda>c. c \<noteq> CHR ''='') pair, drop 1 (dropWhile (\<lambda>c. c \<noteq> CHR ''='') pair))"

text \<open>
  \<open>s.lower()\<close> below 256: the letters \<open>A\<close> to \<open>Z\<close> and the capital letters of Latin-1
  (192 to 222 without the multiplication sign 215) move up by 32.
\<close>

definition lower_char :: "char \<Rightarrow> char" where
  "lower_char c =
     (let n = (of_char c :: nat)
      in if (65 \<le> n \<and> n \<le> 90) \<or> (192 \<le> n \<and> n \<le> 214) \<or> (216 \<le> n \<and> n \<le> 222)
         then char_of (n + 32) else c)"

definition lower :: "string \<Rightarrow> string" where
  "lower s = map lower_char s"

text \<open>
  \<open>s.isdigit()\<close> below 256: the text is not empty and every character is one of \<open>0\<close>
  to \<open>9\<close> or one of the superscripts two, three and one (178, 179, 185).
\<close>

definition isdigit_char :: "char \<Rightarrow> bool" where
  "isdigit_char c =
     (let n = (of_char c :: nat) in (48 \<le> n \<and> n \<le> 57) \<or> n = 178 \<or> n = 179 \<or> n = 185)"

definition isdigit :: "string \<Rightarrow> bool" where
  "isdigit s \<longleftrightarrow> s \<noteq> [] \<and> list_all isdigit_char s"

text \<open>
  \<open>int(value)\<close> for a text on which \<open>isdigit\<close> holds: the superscripts are no decimal
  digits, and the number of digits is limited.
\<close>

definition int_of_str :: "nat \<Rightarrow> string \<Rightarrow> exn + int" where
  "int_of_str max_digits val =
     (if list_all is_digit val then int_from_digits max_digits False val
      else Inl (ValueError,
                ''invalid literal for int() with base 10: '' @ [CHR 0x27] @ val @ [CHR 0x27]))"

subsection \<open>\<open>str_to_dict_validator\<close>\<close>

text \<open>
  The loop over the pairs of the third strategy, with the dictionary built so far.
  The only call that can raise is \<open>int(value)\<close>.
\<close>

fun url_parameters :: "nat \<Rightarrow> string list \<Rightarrow> (pyval \<times> pyval) list \<Rightarrow> exn + (pyval \<times> pyval) list" where
  "url_parameters max_digits [] params = Inr params"
| "url_parameters max_digits (pair # pairs) params =
     (if contains pair ''='' then
        (case split_pair pair of
           (key, val) \<Rightarrow>
             if lower val = ''true'' then
               url_parameters max_digits pairs (dict_set params key (PyBool True))
             else if lower val = ''false'' then
               url_parameters max_digits pairs (dict_set params key (PyBool False))
             else if isdigit val then
               (case int_of_str max_digits val of
                  Inl e \<Rightarrow> Inl e
                | Inr n \<Rightarrow> url_parameters max_digits pairs (dict_set params key (PyInt n)))
             else url_parameters max_digits pairs (dict_set params key (PyStr val)))
      else url_parameters max_digits pairs params)"

text \<open>
  The third \<open>try\<close> block and the \<open>return v\<close> after it: \<open>except Exception\<close> catches what
  the loop raises, and the function goes on to return its argument.
\<close>

definition try_url_parameters :: "runtime \<Rightarrow> string \<Rightarrow> exn + pyval" where
  "try_url_parameters rt v =
     (if contains v ''='' then
        (case url_parameters (int_max_str_digits rt) (split_on CHR ''&'' v) [] of
           Inr params \<Rightarrow> Inr (PyDict params)
         | Inl e \<Rightarrow> Inr (PyStr v))
      else Inr (PyStr v))"

text \<open>
  The second \<open>try\<close> block and what follows it: \<open>ast.literal_eval\<close> is called when the
  stripped text starts with \<open>{\<close> and ends with \<open>}\<close>; of its exceptions the clause
  catches \<open>ValueError\<close>, \<open>SyntaxError\<close> and \<open>TypeError\<close>, any other leaves the function.
\<close>

definition try_literal_eval :: "runtime \<Rightarrow> string \<Rightarrow> exn + pyval" where
  "try_literal_eval rt v =
     (if startswith (strip v) [CHR 0x7B] \<and> endswith (strip v) [CHR 0x7D] then
        (case literal_eval rt v of
           Inr x \<Rightarrow> Inr x
         | Inl e \<Rightarrow>
             if exn_isinstance (fst e) ValueError \<or> exn_isinstance (fst e) SyntaxError
                \<or> exn_isinstance (fst e) TypeError
             then try_url_parameters rt v
             else Inl e)
      else try_url_parameters rt v)"

text \<open>
  \<open>str_to_dict_validator\<close>. The first \<open>try\<close> block returns what \<open>json.loads\<close> returns
  and catches \<open>json.JSONDecodeError\<close> only. The calls of \<open>print\<close> have no part in the
  result. \<open>None\<close> is the model's own, where \<open>json_loads\<close> is.
\<close>

definition str_to_dict_validator :: "runtime \<Rightarrow> pyval \<Rightarrow> (exn + pyval) option" where
  "str_to_dict_validator rt v =
     (if v = PyStr [] then Some (Inr (PyDict []))
      else
        (case v of
           PyStr s \<Rightarrow>
             (case json_loads (recursion_limit rt) (int_max_str_digits rt) s of
                None \<Rightarrow> None
              | Some (Inr x) \<Rightarrow> Some (Inr x)
              | Some (Inl e) \<Rightarrow>
                  if exn_isinstance (fst e) JSONDecodeError then Some (try_literal_eval rt s)
                  else Some (Inl e))
         | _ \<Rightarrow> Some (Inr v)))"


section \<open>Properties of the classifier\<close>

text \<open>
  Claim C1, as stated, says that the classifier follows the three-step policy on any
  string. On the empty string it does not: the guard \<open>if not image_data\<close> answers
  \<open>False\<close> first, while the policy reaches its third step, where the empty payload
  decodes (to no bytes) and the answer is \<open>True\<close>.
\<close>

theorem is_base64_image_empty_not_policy:
  "is_base64_image [] \<noteq> isBase64Image_policy []"
  by (simp add: is_base64_image_def isBase64Image_policy_def strip_base64_prefix_def
      remove_whitespace_def add_padding_def b64decode_def a2b_base64_def)

text \<open>
  Claim C1, amended: on every non-empty string the classifier follows the three-step
  policy in order. A data URI (prefix \<open>data:image/\<close> with a \<open>base64,\<close> marker) gives
  \<open>True\<close> without decoding; otherwise a string starting with \<open>http://\<close>, \<open>https://\<close>,
  \<open>//\<close> or \<open>/\<close> gives \<open>False\<close>; otherwise the answer is whether the cleaned and padded
  payload decodes, a decode error giving \<open>False\<close>.
\<close>

theorem is_base64_image_follows_policy:
  assumes "image_data \<noteq> []"
  shows "is_base64_image image_data = isBase64Image_policy image_data"
  using assms by (simp add: is_base64_image_def isBase64Image_policy_def clean_base64_def)

theorem is_base64_image_follows_policy_witness:
  "''aGk'' \<noteq> [] \<and> is_base64_image ''aGk'' = isBase64Image_policy ''aGk''
   \<and> isBase64Image_policy ''aGk'' = True
   \<and> is_base64_image ''a'' = isBase64Image_policy ''a''
   \<and> isBase64Image_policy ''a'' = False"
proof -
  have "isBase64Image_policy ''aGk'' = True"
    by code_simp
  moreover have "isBase64Image_policy ''a'' = False"
    by code_simp
  ultimately show ?thesis
    using is_base64_image_follows_policy [of "''aGk''"]
      is_base64_image_follows_policy [of "''a''"] by simp
qed

text \<open>
  Claim C10: the classifier answers \<open>False\<close> on the empty string, although the empty
  payload, cleaned and padded, decodes without error (to the empty byte string).
\<close>

theorem is_base64_image_empty:
  "is_base64_image [] = False \<and> b64decode (clean_base64 []) = Inr []"
  by (simp add: is_base64_image_def clean_base64_def strip_base64_prefix_def
      remove_whitespace_def add_padding_def b64decode_def a2b_base64_def)

section \<open>Properties of the persister and of the image search\<close>

lemma save_base64_image_decode_error:
  "b64decode (clean_base64 d) = Inl e \<Longrightarrow>
   save_base64_image fs d folder p t = (fs, failed_to_save t e)"
  by (simp add: save_base64_image_def)

lemma save_base64_image_saved:
  assumes "b64decode (clean_base64 image_data) = Inr image_bytes"
      and "makedirs_error fs folder_path = None"
      and "open_error fs file_path = None" and "write_error fs file_path = None"
      and "file_path = path_join folder_path
             (filename_prefix @ ''_'' @ GoogleSearchTool_sanitize_filename title @ ''.'' @
              detect_image_format image_bytes)"
  shows "save_base64_image fs image_data folder_path filename_prefix title =
           (fs\<lparr>dirs := insert folder_path (dirs fs),
               files := (files fs)(file_path \<mapsto> Binary image_bytes)\<rparr>,
            ''Saved: '' @ file_path)"
  using assms by (simp add: save_base64_image_def makedirs_def write_file_def Let_def)

lemma save_base64_images_append:
  "save_base64_images fs folder (xs @ ys) acc =
     (case save_base64_images fs folder xs acc of
        (fs1, r1) \<Rightarrow> save_base64_images fs1 folder ys r1)"
  by (induction xs arbitrary: fs acc) (auto split: prod.splits)

lemma save_base64_images_acc:
  "save_base64_images fs folder xs acc =
     (case save_base64_images fs folder xs [] of (fs1, rs) \<Rightarrow> (fs1, acc @ rs))"
proof (induction xs arbitrary: fs acc)
  case Nil
  then show ?case by simp
next
  case (Cons x xs)
  show ?case
    by (simp add: Cons.IH [of _ "acc @ [_]"] Cons.IH [of _ "[_]"] split: prod.splits)
qed

text \<open>A file system that holds nothing and refuses nothing, for the examples.\<close>

definition empty_fs :: filesystem where
  "empty_fs = \<lparr>files = Map.empty, dirs = {}, makedirs_error = (\<lambda>p. None),
               open_error = (\<lambda>p. None), write_error = (\<lambda>p. None)\<rparr>"

text \<open>
  Entries for the examples: a data URI whose payload cannot be decoded, a link, the PNG
  signature in base64 under a header that declares a GIF, and the first bytes of a GIF
  without a header.
\<close>

definition bad_item :: image_item where
  "bad_item = \<lparr>item_image = Some ''data:image/png;base64,A'', item_title = Some ''bad'',
                item_position = Some 2\<rparr>"

definition url_item :: image_item where
  "url_item = \<lparr>item_image = Some ''https://example.com/a.png'', item_title = None,
                item_position = Some 1\<rparr>"

definition png_item :: image_item where
  "png_item = \<lparr>item_image = Some ''data:image/gif;base64,iVBORw0KGgo='',
                item_title = Some ''A dot'', item_position = Some 1\<rparr>"

definition gif_item :: image_item where
  "gif_item = \<lparr>item_image = Some ''R0lGODlh'', item_title = Some ''B'',
                item_position = Some 3\<rparr>"

definition png_signature :: "byte list" where
  "png_signature = [0x89, 0x50, 0x4E, 0x47, 0x0D, 0x0A, 0x1A, 0x0A]"

definition gif_signature :: "byte list" where
  "gif_signature = [0x47, 0x49, 0x46, 0x38, 0x39, 0x61]"

lemma bad_item_decode:
  "b64decode (clean_base64 (b64_data (base64_entry_of bad_item))) = Inl (BinasciiError,
     ''Invalid base64-encoded string: number of data characters (1) cannot be 1 more than a multiple of 4'')"
  by code_simp

lemma bad_item_title: "b64_title (base64_entry_of bad_item) = ''bad''"
  by code_simp

lemma bad_item_position: "format_02d (b64_position (base64_entry_of bad_item)) = ''02''"
  by code_simp

lemma png_item_decode:
  "b64decode (clean_base64 (b64_data (base64_entry_of png_item))) = Inr png_signature"
  by code_simp

lemma png_item_path:
  "path_join ''out'' (format_02d (b64_position (base64_entry_of png_item)) @ ''_'' @
     GoogleSearchTool_sanitize_filename (b64_title (base64_entry_of png_item)) @ ''.'' @
     detect_image_format png_signature) = ''out/01_A_dot.png''"
  by code_simp

lemma gif_item_decode:
  "b64decode (clean_base64 (b64_data (base64_entry_of gif_item))) = Inr gif_signature"
  by code_simp

lemma gif_item_path:
  "path_join ''out'' (format_02d (b64_position (base64_entry_of gif_item)) @ ''_'' @
     GoogleSearchTool_sanitize_filename (b64_title (base64_entry_of gif_item)) @ ''.'' @
     detect_image_format gif_signature) = ''out/03_B.gif''"
  by code_simp

lemma png_item_saved:
  assumes "makedirs_error fs ''out'' = None" "open_error fs ''out/01_A_dot.png'' = None"
    "write_error fs ''out/01_A_dot.png'' = None"
  shows "save_base64_image fs (b64_data (base64_entry_of png_item)) ''out''
           (format_02d (b64_position (base64_entry_of png_item)))
           (b64_title (base64_entry_of png_item))
         = (fs\<lparr>dirs := insert ''out'' (dirs fs),
               files := (files fs)(''out/01_A_dot.png'' \<mapsto> Binary png_signature)\<rparr>,
            ''Saved: out/01_A_dot.png'')"
  using save_base64_image_saved [OF png_item_decode assms png_item_path [symmetric]]
  by simp

lemma gif_item_saved:
  assumes "makedirs_error fs ''out'' = None" "open_error fs ''out/03_B.gif'' = None"
    "write_error fs ''out/03_B.gif'' = None"
  shows "save_base64_image fs (b64_data (base64_entry_of gif_item)) ''out''
           (format_02d (b64_position (base64_entry_of gif_item)))
           (b64_title (base64_entry_of gif_item))
         = (fs\<lparr>dirs := insert ''out'' (dirs fs),
               files := (files fs)(''out/03_B.gif'' \<mapsto> Binary gif_signature)\<rparr>,
            ''Saved: out/03_B.gif'')"
  using save_base64_image_saved [OF gif_item_decode assms gif_item_path [symmetric]]
  by simp

text \<open>
  Claim C6: when the payload of an entry does not decode (after the prefix is stripped,
  the whitespace removed and the padding added), the persister returns the string
  \<open>Failed to save '<title>': <message of the error>\<close>, which carries the entry's
  title, and leaves the file system as it was: no directory is made and no file is
  opened. In the loop over the base64 entries the failure stays with that entry: the
  entries before and after it are processed as they would be without it, and the
  list of results has that string at the entry's place.
\<close>

theorem decode_failure_is_local:
  assumes "b64decode (clean_base64 (b64_data x)) = Inl e"
  shows "save_base64_image fs (b64_data x) folder_path filename_prefix (b64_title x)
           = (fs, ''Failed to save '' @ [CHR 0x27] @ b64_title x @ [CHR 0x27] @ '': '' @ snd e)
       \<and> save_base64_images fs folder_path (before @ x # after) []
           = (case save_base64_images fs folder_path before [] of
                (fs1, saved1) \<Rightarrow>
                  (case save_base64_images fs1 folder_path after [] of
                     (fs2, saved2) \<Rightarrow>
                       (fs2, saved1 @
                             [''Failed to save '' @ [CHR 0x27] @ b64_title x @ [CHR 0x27] @
                              '': '' @ snd e] @ saved2)))"
proof -
  have one: "save_base64_image fs' (b64_data x) folder_path p (b64_title x)
           = (fs', ''Failed to save '' @ [CHR 0x27] @ b64_title x @ [CHR 0x27] @ '': '' @ snd e)"
    for fs' p
    using save_base64_image_decode_error [OF assms, of fs' folder_path p "b64_title x"]
    by (simp add: failed_to_save_def)
  have "save_base64_images fs folder_path (before @ x # after) []
      = (case save_base64_images fs folder_path before [] of
           (fs1, saved1) \<Rightarrow>
             save_base64_images fs1 folder_path after
               (saved1 @ [''Failed to save '' @ [CHR 0x27] @ b64_title x @ [CHR 0x27] @
                          '': '' @ snd e]))"
    by (simp add: save_base64_images_append one split: prod.splits)
  also have "\<dots> = (case save_base64_images fs folder_path before [] of
                (fs1, saved1) \<Rightarrow>
                  (case save_base64_images fs1 folder_path after [] of
                     (fs2, saved2) \<Rightarrow>
                       (fs2, saved1 @
                             [''Failed to save '' @ [CHR 0x27] @ b64_title x @ [CHR 0x27] @
                              '': '' @ snd e] @ saved2)))"
    by (simp add: save_base64_images_acc [of _ _ after "_ @ [_]"] split: prod.splits)
  finally show ?thesis using one by simp
qed

theorem decode_failure_is_local_witness:
  "b64decode (clean_base64 (b64_data (base64_entry_of bad_item))) = Inl (BinasciiError,
     ''Invalid base64-encoded string: number of data characters (1) cannot be 1 more than a multiple of 4'')
   \<and> save_base64_image empty_fs (b64_data (base64_entry_of bad_item)) ''out'' ''02'' ''bad''
       = (empty_fs,
          ''Failed to save '' @ [CHR 0x27] @ ''bad'' @ [CHR 0x27] @
          '': Invalid base64-encoded string: number of data characters (1) cannot be 1 more than a multiple of 4'')
   \<and> save_base64_images empty_fs ''out''
         [base64_entry_of png_item, base64_entry_of bad_item, base64_entry_of gif_item] []
       = (empty_fs\<lparr>dirs := {''out''},
                   files := [''out/01_A_dot.png'' \<mapsto> Binary png_signature,
                             ''out/03_B.gif'' \<mapsto> Binary gif_signature]\<rparr>,
          [''Saved: out/01_A_dot.png'',
           ''Failed to save '' @ [CHR 0x27] @ ''bad'' @ [CHR 0x27] @
           '': Invalid base64-encoded string: number of data characters (1) cannot be 1 more than a multiple of 4'',
           ''Saved: out/03_B.gif''])"
proof -
  have s1: "save_base64_images empty_fs ''out'' [base64_entry_of png_item] []
      = (empty_fs\<lparr>dirs := {''out''},
                  files := [''out/01_A_dot.png'' \<mapsto> Binary png_signature]\<rparr>,
         [''Saved: out/01_A_dot.png''])"
    by (simp add: png_item_saved empty_fs_def)
  have s3: "save_base64_images
        (empty_fs\<lparr>dirs := {''out''},
                  files := [''out/01_A_dot.png'' \<mapsto> Binary png_signature]\<rparr>)
        ''out'' [base64_entry_of gif_item] []
      = (empty_fs\<lparr>dirs := {''out''},
                  files := [''out/01_A_dot.png'' \<mapsto> Binary png_signature,
                            ''out/03_B.gif'' \<mapsto> Binary gif_signature]\<rparr>,
         [''Saved: out/03_B.gif''])"
    by (simp add: gif_item_saved empty_fs_def)
  from decode_failure_is_local [OF bad_item_decode, of empty_fs "''out''" "''02''"
      "[base64_entry_of png_item]" "[base64_entry_of gif_item]"]
  have "save_base64_image empty_fs (b64_data (base64_entry_of bad_item)) ''out'' ''02''
          (b64_title (base64_entry_of bad_item))
        = (empty_fs, ''Failed to save '' @ [CHR 0x27] @ b64_title (base64_entry_of bad_item) @
             [CHR 0x27] @ '': '' @ snd (BinasciiError,
     ''Invalid base64-encoded string: number of data characters (1) cannot be 1 more than a multiple of 4''))"
    and "save_base64_images empty_fs ''out''
         ([base64_entry_of png_item] @ base64_entry_of bad_item # [base64_entry_of gif_item]) []
       = (case save_base64_images empty_fs ''out'' [base64_entry_of png_item] [] of
            (fs1, saved1) \<Rightarrow>
              (case save_base64_images fs1 ''out'' [base64_entry_of gif_item] [] of
                 (fs2, saved2) \<Rightarrow>
                   (fs2, saved1 @
                      [''Failed to save '' @ [CHR 0x27] @ b64_title (base64_entry_of bad_item) @
                       [CHR 0x27] @ '': '' @ snd (BinasciiError,
     ''Invalid base64-encoded string: number of data characters (1) cannot be 1 more than a multiple of 4'')] @
                      saved2)))"
    by blast+
  then show ?thesis
    unfolding s1 prod.case s3 bad_item_title
    using bad_item_decode by simp
qed

text \<open>
  For the proofs about the second loop: the path at which the persister saves an entry
  whose payload decodes to \<open>image_bytes\<close>, what one call says about its entry on any
  file system, and what it does on a file system that refuses nothing.
\<close>

definition saved_path :: "string \<Rightarrow> base64_entry \<Rightarrow> byte list \<Rightarrow> string" where
  "saved_path folder_path x image_bytes =
     path_join folder_path
       (format_02d (b64_position x) @ ''_'' @ GoogleSearchTool_sanitize_filename (b64_title x) @
        ''.'' @ detect_image_format image_bytes)"

definition entry_result :: "string \<Rightarrow> base64_entry \<Rightarrow> string \<Rightarrow> bool" where
  "entry_result folder_path x r =
     (case b64decode (clean_base64 (b64_data x)) of
        Inl e \<Rightarrow> r = failed_to_save (b64_title x) e
      | Inr image_bytes \<Rightarrow>
          r = ''Saved: '' @ saved_path folder_path x image_bytes
          \<or> (\<exists>e. r = failed_to_save (b64_title x) e))"

definition refuses_nothing :: "filesystem \<Rightarrow> bool" where
  "refuses_nothing fs \<longleftrightarrow>
     (\<forall>p. makedirs_error fs p = None \<and> open_error fs p = None \<and> write_error fs p = None)"

definition entry_saved :: "string \<Rightarrow> base64_entry \<Rightarrow> string" where
  "entry_saved folder_path x =
     (case b64decode (clean_base64 (b64_data x)) of
        Inl e \<Rightarrow> failed_to_save (b64_title x) e
      | Inr image_bytes \<Rightarrow> ''Saved: '' @ saved_path folder_path x image_bytes)"

definition entry_write :: "string \<Rightarrow> (string \<rightharpoonup> content) \<Rightarrow> base64_entry \<Rightarrow> (string \<rightharpoonup> content)" where
  "entry_write folder_path m x =
     (case b64decode (clean_base64 (b64_data x)) of
        Inl e \<Rightarrow> m
      | Inr image_bytes \<Rightarrow> m(saved_path folder_path x image_bytes \<mapsto> Binary image_bytes))"

lemma save_base64_image_entry_result:
  "save_base64_image fs (b64_data x) folder (format_02d (b64_position x)) (b64_title x) = (fs1, r)
   \<Longrightarrow> entry_result folder x r"
  by (auto simp: save_base64_image_def Let_def entry_result_def saved_path_def
      split: sum.splits prod.splits option.splits)

lemma save_base64_images_results:
  "save_base64_images fs folder xs acc = (fs', r) \<Longrightarrow>
   \<exists>rs. r = acc @ rs \<and> list_all2 (entry_result folder) xs rs"
proof (induction xs arbitrary: fs acc)
  case Nil
  then show ?case by simp
next
  case (Cons x xs)
  obtain fs1 r1 where s:
    "save_base64_image fs (b64_data x) folder (format_02d (b64_position x)) (b64_title x) = (fs1, r1)"
    by fastforce
  have e: "entry_result folder x r1"
    using s by (rule save_base64_image_entry_result)
  from s Cons.prems have "save_base64_images fs1 folder xs (acc @ [r1]) = (fs', r)"
    by simp
  from Cons.IH [OF this] obtain rs
    where "r = (acc @ [r1]) @ rs" "list_all2 (entry_result folder) xs rs" by blast
  with e have "r = acc @ (r1 # rs) \<and> list_all2 (entry_result folder) (x # xs) (r1 # rs)"
    by simp
  then show ?case by blast
qed

lemma save_base64_image_refuses_nothing:
  assumes "refuses_nothing fs"
      and "save_base64_image fs (b64_data x) folder (format_02d (b64_position x)) (b64_title x)
             = (fs1, r)"
  shows "refuses_nothing fs1 \<and> r = entry_saved folder x
       \<and> files fs1 = entry_write folder (files fs) x"
  using assms
  by (auto simp: save_base64_image_def makedirs_def write_file_def Let_def refuses_nothing_def
      entry_saved_def entry_write_def saved_path_def split: sum.splits)

lemma save_base64_images_refuses_nothing:
  "refuses_nothing fs \<Longrightarrow> save_base64_images fs folder xs acc = (fs', r) \<Longrightarrow>
   r = acc @ map (entry_saved folder) xs \<and> files fs' = foldl (entry_write folder) (files fs) xs"
proof (induction xs arbitrary: fs acc)
  case Nil
  then show ?case by simp
next
  case (Cons x xs)
  obtain fs1 r1 where s:
    "save_base64_image fs (b64_data x) folder (format_02d (b64_position x)) (b64_title x) = (fs1, r1)"
    by fastforce
  from save_base64_image_refuses_nothing [OF Cons.prems(1) s]
  have n: "refuses_nothing fs1" and r1: "r1 = entry_saved folder x"
    and f1: "files fs1 = entry_write folder (files fs) x" by simp_all
  from s Cons.prems(2) have "save_base64_images fs1 folder xs (acc @ [r1]) = (fs', r)"
    by simp
  from Cons.IH [OF n this] r1 f1 show ?case by simp
qed

lemma foldl_entry_write_other:
  "(\<forall>x \<in> set xs. \<forall>b. b64decode (clean_base64 (b64_data x)) = Inr b \<longrightarrow> saved_path folder x b \<noteq> p)
   \<Longrightarrow> foldl (entry_write folder) m xs p = m p"
proof (induction xs arbitrary: m)
  case Nil
  then show ?case by simp
next
  case (Cons x xs)
  from Cons.prems have "entry_write folder m x p = m p"
    by (auto simp: entry_write_def split: sum.splits)
  with Cons show ?case by simp
qed

lemma foldl_entry_write_last:
  assumes k: "k < length xs"
      and d: "b64decode (clean_base64 (b64_data (xs ! k))) = Inr bytes"
      and later: "\<forall>j. k < j \<and> j < length xs \<longrightarrow>
                (\<forall>b. b64decode (clean_base64 (b64_data (xs ! j))) = Inr b \<longrightarrow>
                     saved_path folder (xs ! j) b \<noteq> saved_path folder (xs ! k) bytes)"
  shows "foldl (entry_write folder) m xs (saved_path folder (xs ! k) bytes) = Some (Binary bytes)"
proof -
  have split: "xs = take k xs @ xs ! k # drop (Suc k) xs"
    using k by (rule id_take_nth_drop)
  have rest: "\<forall>x \<in> set (drop (Suc k) xs). \<forall>b. b64decode (clean_base64 (b64_data x)) = Inr b
      \<longrightarrow> saved_path folder x b \<noteq> saved_path folder (xs ! k) bytes"
  proof
    fix x assume "x \<in> set (drop (Suc k) xs)"
    then obtain i where i: "i < length xs - Suc k" "x = drop (Suc k) xs ! i"
      by (auto simp: in_set_conv_nth)
    then have "x = xs ! (Suc k + i)" "k < Suc k + i" "Suc k + i < length xs"
      by simp_all
    with later show "\<forall>b. b64decode (clean_base64 (b64_data x)) = Inr b
      \<longrightarrow> saved_path folder x b \<noteq> saved_path folder (xs ! k) bytes" by blast
  qed
  have "foldl (entry_write folder) m xs
      = foldl (entry_write folder)
          (entry_write folder (foldl (entry_write folder) m (take k xs)) (xs ! k))
          (drop (Suc k) xs)"
    by (subst split) (simp only: foldl_append foldl_Cons)
  then show ?thesis
    using foldl_entry_write_other [OF rest] d by (simp add: entry_write_def)
qed

lemma separate_images_filter:
  "separate_images items b l =
     (b @ map base64_entry_of (filter (\<lambda>i. is_base64_image (image_data_of i)) items),
      l @ map link_info_of (filter (\<lambda>i. \<not> is_base64_image (image_data_of i)) items))"
  by (induction items arbitrary: b l) simp_all

text \<open>
  Claim C7. The first loop puts every record in exactly one of the two lists: the
  base64 list holds the records whose image field the classifier accepts and the link
  list the records it rejects, each in the order of the input and each with the
  record's image field, title and position (an absent key gives \<open>''\<close>, \<open>untitled\<close> and
  \<open>0\<close>). The second loop gives every base64 entry one result at its own index: the
  string \<open>Failed to save '<title>': <message>\<close> when its payload does not decode (an
  error entry, not a dropped record), and otherwise \<open>Saved: <path>\<close> or such a failure
  string. On a file system that refuses nothing every entry that decodes has the
  result \<open>Saved: <path>\<close>, and the files afterwards are the files before with the
  decoded bytes of each such entry written at its path, in the order of the list; so
  the file of an entry holds its bytes unless a later entry is saved at the same path
  (same position, cleaned title and format), whose bytes replace them.
\<close>

theorem every_record_in_one_list:
  assumes sep: "separate_images items [] [] = (base64_images, image_links)"
      and sav: "save_base64_images fs folder_path base64_images [] = (fs', saved_images)"
  shows "(let image = (\<lambda>item. case item_image item of Some d \<Rightarrow> d | None \<Rightarrow> []);
              title = (\<lambda>item. case item_title item of Some t \<Rightarrow> t | None \<Rightarrow> ''untitled'');
              position = (\<lambda>item. case item_position item of Some p \<Rightarrow> p | None \<Rightarrow> 0);
              decode = (\<lambda>x. b64decode (clean_base64 (b64_data x)));
              path = (\<lambda>x image_bytes. path_join folder_path
                        (format_02d (b64_position x) @ ''_'' @
                         GoogleSearchTool_sanitize_filename (b64_title x) @ ''.'' @
                         detect_image_format image_bytes));
              failure = (\<lambda>x e. ''Failed to save '' @ [CHR 0x27] @ b64_title x @ [CHR 0x27] @
                                 '': '' @ snd e)
          in base64_images =
               map (\<lambda>item. \<lparr>b64_data = image item, b64_title = title item,
                             b64_position = position item\<rparr>)
                 (filter (\<lambda>item. is_base64_image (image item)) items)
           \<and> image_links =
               map (\<lambda>item. \<lparr>link_url = image item, link_title = title item,
                             link_position = position item\<rparr>)
                 (filter (\<lambda>item. \<not> is_base64_image (image item)) items)
           \<and> length base64_images + length image_links = length items
           \<and> length saved_images = length base64_images
           \<and> (\<forall>k < length base64_images.
                 (case decode (base64_images ! k) of
                    Inl e \<Rightarrow> saved_images ! k = failure (base64_images ! k) e
                  | Inr image_bytes \<Rightarrow>
                      saved_images ! k = ''Saved: '' @ path (base64_images ! k) image_bytes
                      \<or> (\<exists>e. saved_images ! k = failure (base64_images ! k) e)))
           \<and> ((\<forall>p. makedirs_error fs p = None \<and> open_error fs p = None
                    \<and> write_error fs p = None) \<longrightarrow>
                saved_images =
                  map (\<lambda>x. case decode x of
                              Inl e \<Rightarrow> failure x e
                            | Inr image_bytes \<Rightarrow> ''Saved: '' @ path x image_bytes)
                    base64_images
              \<and> files fs' =
                  foldl (\<lambda>m x. case decode x of
                                 Inl e \<Rightarrow> m
                               | Inr image_bytes \<Rightarrow> m(path x image_bytes \<mapsto> Binary image_bytes))
                    (files fs) base64_images
              \<and> (\<forall>k < length base64_images. \<forall>image_bytes.
                    decode (base64_images ! k) = Inr image_bytes
                    \<and> (\<forall>j. k < j \<and> j < length base64_images \<longrightarrow>
                          (\<forall>b. decode (base64_images ! j) = Inr b \<longrightarrow>
                               path (base64_images ! j) b \<noteq> path (base64_images ! k) image_bytes))
                    \<longrightarrow> files fs' (path (base64_images ! k) image_bytes)
                          = Some (Binary image_bytes))))"
proof -
  have eb: "base64_entry_of =
      (\<lambda>item. \<lparr>b64_data = (case item_image item of Some d \<Rightarrow> d | None \<Rightarrow> []),
                b64_title = (case item_title item of Some t \<Rightarrow> t | None \<Rightarrow> ''untitled''),
                b64_position = (case item_position item of Some p \<Rightarrow> p | None \<Rightarrow> 0)\<rparr>)"
    by (intro ext) (simp add: base64_entry_of_def image_data_of_def title_of_def position_of_def)
  have el: "link_info_of =
      (\<lambda>item. \<lparr>link_url = (case item_image item of Some d \<Rightarrow> d | None \<Rightarrow> []),
                link_title = (case item_title item of Some t \<Rightarrow> t | None \<Rightarrow> ''untitled''),
                link_position = (case item_position item of Some p \<Rightarrow> p | None \<Rightarrow> 0)\<rparr>)"
    by (intro ext) (simp add: link_info_of_def image_data_of_def title_of_def position_of_def)
  have ei: "image_data_of = (\<lambda>item. case item_image item of Some d \<Rightarrow> d | None \<Rightarrow> [])"
    by (intro ext) (simp add: image_data_of_def)
  have es: "entry_saved folder_path =
      (\<lambda>x. case b64decode (clean_base64 (b64_data x)) of
              Inl e \<Rightarrow> ''Failed to save '' @ [CHR 0x27] @ b64_title x @ [CHR 0x27] @ '': '' @ snd e
            | Inr image_bytes \<Rightarrow> ''Saved: '' @ path_join folder_path
                        (format_02d (b64_position x) @ ''_'' @
                         GoogleSearchTool_sanitize_filename (b64_title x) @ ''.'' @
                         detect_image_format image_bytes))"
    by (intro ext) (simp add: entry_saved_def saved_path_def failed_to_save_def split: sum.splits)
  have ew: "entry_write folder_path =
      (\<lambda>m x. case b64decode (clean_base64 (b64_data x)) of
                Inl e \<Rightarrow> m
              | Inr image_bytes \<Rightarrow> m(path_join folder_path
                        (format_02d (b64_position x) @ ''_'' @
                         GoogleSearchTool_sanitize_filename (b64_title x) @ ''.'' @
                         detect_image_format image_bytes) \<mapsto> Binary image_bytes))"
    by (intro ext) (simp add: entry_write_def saved_path_def split: sum.splits)
  from sep have b: "base64_images =
      map base64_entry_of (filter (\<lambda>i. is_base64_image (image_data_of i)) items)"
    and l: "image_links =
      map link_info_of (filter (\<lambda>i. \<not> is_base64_image (image_data_of i)) items)"
    by (simp_all add: separate_images_filter)
  have len: "length base64_images + length image_links = length items"
    unfolding b l by (simp add: sum_length_filter_compl)
  from save_base64_images_results [OF sav]
  have la: "list_all2 (entry_result folder_path) base64_images saved_images" by simp
  then have n: "length saved_images = length base64_images"
    by (simp add: list_all2_lengthD)
  have each: "entry_result folder_path (base64_images ! k) (saved_images ! k)"
    if "k < length base64_images" for k
    using la that by (simp add: list_all2_nthD)
  have c1: "base64_images =
      map (\<lambda>item. \<lparr>b64_data = (case item_image item of Some d \<Rightarrow> d | None \<Rightarrow> []),
                b64_title = (case item_title item of Some t \<Rightarrow> t | None \<Rightarrow> ''untitled''),
                b64_position = (case item_position item of Some p \<Rightarrow> p | None \<Rightarrow> 0)\<rparr>)
        (filter (\<lambda>item. is_base64_image (case item_image item of Some d \<Rightarrow> d | None \<Rightarrow> []))
           items)"
    using b unfolding eb ei .
  have c2: "image_links =
      map (\<lambda>item. \<lparr>link_url = (case item_image item of Some d \<Rightarrow> d | None \<Rightarrow> []),
                link_title = (case item_title item of Some t \<Rightarrow> t | None \<Rightarrow> ''untitled''),
                link_position = (case item_position item of Some p \<Rightarrow> p | None \<Rightarrow> 0)\<rparr>)
        (filter (\<lambda>item. \<not> is_base64_image (case item_image item of Some d \<Rightarrow> d | None \<Rightarrow> []))
           items)"
    using l unfolding el ei .
  have c5: "\<forall>k < length base64_images.
      (case b64decode (clean_base64 (b64_data (base64_images ! k))) of
         Inl e \<Rightarrow> saved_images ! k =
           ''Failed to save '' @ [CHR 0x27] @ b64_title (base64_images ! k) @ [CHR 0x27] @
           '': '' @ snd e
       | Inr image_bytes \<Rightarrow>
           saved_images ! k = ''Saved: '' @ path_join folder_path
               (format_02d (b64_position (base64_images ! k)) @ ''_'' @
                GoogleSearchTool_sanitize_filename (b64_title (base64_images ! k)) @ ''.'' @
                detect_image_format image_bytes)
           \<or> (\<exists>e. saved_images ! k =
                 ''Failed to save '' @ [CHR 0x27] @ b64_title (base64_images ! k) @ [CHR 0x27] @
                 '': '' @ snd e))"
  proof (intro allI impI)
    fix k assume "k < length base64_images"
    then have "entry_result folder_path (base64_images ! k) (saved_images ! k)" by (rule each)
    then show "case b64decode (clean_base64 (b64_data (base64_images ! k))) of
         Inl e \<Rightarrow> saved_images ! k =
           ''Failed to save '' @ [CHR 0x27] @ b64_title (base64_images ! k) @ [CHR 0x27] @
           '': '' @ snd e
       | Inr image_bytes \<Rightarrow>
           saved_images ! k = ''Saved: '' @ path_join folder_path
               (format_02d (b64_position (base64_images ! k)) @ ''_'' @
                GoogleSearchTool_sanitize_filename (b64_title (base64_images ! k)) @ ''.'' @
                detect_image_format image_bytes)
           \<or> (\<exists>e. saved_images ! k =
                 ''Failed to save '' @ [CHR 0x27] @ b64_title (base64_images ! k) @ [CHR 0x27] @
                 '': '' @ snd e)"
      by (simp add: entry_result_def saved_path_def failed_to_save_def split: sum.splits)
  qed
  have c6: "saved_images = map (entry_saved folder_path) base64_images
      \<and> files fs' = foldl (entry_write folder_path) (files fs) base64_images
      \<and> (\<forall>k < length base64_images. \<forall>image_bytes.
            b64decode (clean_base64 (b64_data (base64_images ! k))) = Inr image_bytes
            \<and> (\<forall>j. k < j \<and> j < length base64_images \<longrightarrow>
                  (\<forall>b. b64decode (clean_base64 (b64_data (base64_images ! j))) = Inr b \<longrightarrow>
                       saved_path folder_path (base64_images ! j) b
                         \<noteq> saved_path folder_path (base64_images ! k) image_bytes))
            \<longrightarrow> files fs' (saved_path folder_path (base64_images ! k) image_bytes)
                  = Some (Binary image_bytes))"
    if nice: "\<forall>p. makedirs_error fs p = None \<and> open_error fs p = None \<and> write_error fs p = None"
  proof -
    from nice have "refuses_nothing fs" by (simp add: refuses_nothing_def)
    from save_base64_images_refuses_nothing [OF this sav]
    have r: "saved_images = map (entry_saved folder_path) base64_images"
      and f: "files fs' = foldl (entry_write folder_path) (files fs) base64_images"
      by simp_all
    show ?thesis
      using r f foldl_entry_write_last [of _ base64_images _ folder_path "files fs"]
      by simp
  qed
  show ?thesis
    unfolding Let_def
    using c1 c2 len n c5 c6 [unfolded es ew saved_path_def]
    by blast
qed

lemma example_entries:
  "base64_entry_of png_item =
     \<lparr>b64_data = ''data:image/gif;base64,iVBORw0KGgo='', b64_title = ''A dot'', b64_position = 1\<rparr>"
  "base64_entry_of bad_item =
     \<lparr>b64_data = ''data:image/png;base64,A'', b64_title = ''bad'', b64_position = 2\<rparr>"
  "base64_entry_of gif_item =
     \<lparr>b64_data = ''R0lGODlh'', b64_title = ''B'', b64_position = 3\<rparr>"
  "link_info_of url_item =
     \<lparr>link_url = ''https://example.com/a.png'', link_title = ''untitled'', link_position = 1\<rparr>"
  by (simp_all add: base64_entry_of_def link_info_of_def image_data_of_def title_of_def
      position_of_def png_item_def bad_item_def gif_item_def url_item_def)

lemma example_separated:
  "separate_images [url_item, png_item, bad_item, gif_item] [] [] =
     ([base64_entry_of png_item, base64_entry_of bad_item, base64_entry_of gif_item],
      [link_info_of url_item])"
  by code_simp

lemma example_saved:
  "save_base64_images empty_fs ''out''
     [base64_entry_of png_item, base64_entry_of bad_item, base64_entry_of gif_item] []
   = (empty_fs\<lparr>dirs := {''out''},
               files := [''out/01_A_dot.png'' \<mapsto> Binary png_signature,
                         ''out/03_B.gif'' \<mapsto> Binary gif_signature]\<rparr>,
      [''Saved: out/01_A_dot.png'',
       ''Failed to save '' @ [CHR 0x27] @ ''bad'' @ [CHR 0x27] @
       '': Invalid base64-encoded string: number of data characters (1) cannot be 1 more than a multiple of 4'',
       ''Saved: out/03_B.gif''])"
  by (simp add: png_item_saved gif_item_saved save_base64_image_decode_error [OF bad_item_decode]
      failed_to_save_def bad_item_title empty_fs_def)

theorem every_record_in_one_list_witness:
  "separate_images [url_item, png_item, bad_item, gif_item] [] [] =
     ([\<lparr>b64_data = ''data:image/gif;base64,iVBORw0KGgo='', b64_title = ''A dot'', b64_position = 1\<rparr>,
       \<lparr>b64_data = ''data:image/png;base64,A'', b64_title = ''bad'', b64_position = 2\<rparr>,
       \<lparr>b64_data = ''R0lGODlh'', b64_title = ''B'', b64_position = 3\<rparr>],
      [\<lparr>link_url = ''https://example.com/a.png'', link_title = ''untitled'', link_position = 1\<rparr>])
   \<and> save_base64_images empty_fs ''out''
       [\<lparr>b64_data = ''data:image/gif;base64,iVBORw0KGgo='', b64_title = ''A dot'', b64_position = 1\<rparr>,
        \<lparr>b64_data = ''data:image/png;base64,A'', b64_title = ''bad'', b64_position = 2\<rparr>,
        \<lparr>b64_data = ''R0lGODlh'', b64_title = ''B'', b64_position = 3\<rparr>] []
     = (empty_fs\<lparr>dirs := {''out''},
                 files := [''out/01_A_dot.png'' \<mapsto> Binary png_signature,
                           ''out/03_B.gif'' \<mapsto> Binary gif_signature]\<rparr>,
        [''Saved: out/01_A_dot.png'',
         ''Failed to save '' @ [CHR 0x27] @ ''bad'' @ [CHR 0x27] @
         '': Invalid base64-encoded string: number of data characters (1) cannot be 1 more than a multiple of 4'',
         ''Saved: out/03_B.gif''])
   \<and> files (empty_fs\<lparr>dirs := {''out''},
                 files := [''out/01_A_dot.png'' \<mapsto> Binary png_signature,
                           ''out/03_B.gif'' \<mapsto> Binary gif_signature]\<rparr>) ''out/01_A_dot.png''
       = Some (Binary png_signature)"
proof -
  note t = every_record_in_one_list [OF example_separated example_saved, unfolded Let_def]
  have nice: "\<forall>p. makedirs_error empty_fs p = None \<and> open_error empty_fs p = None
      \<and> write_error empty_fs p = None"
    by (simp add: empty_fs_def)
  note last = t [THEN conjunct2, THEN conjunct2, THEN conjunct2, THEN conjunct2, THEN conjunct2,
      THEN mp, OF nice, THEN conjunct2, THEN conjunct2, THEN spec, of 0, THEN mp, THEN spec,
      of png_signature, THEN mp]
  let ?bs = "[base64_entry_of png_item, base64_entry_of bad_item, base64_entry_of gif_item]"
  let ?decode = "\<lambda>x. b64decode (clean_base64 (b64_data x))"
  let ?path = "\<lambda>x image_bytes. path_join ''out''
      (format_02d (b64_position x) @ ''_'' @ GoogleSearchTool_sanitize_filename (b64_title x) @
       ''.'' @ detect_image_format image_bytes)"
  have "files (empty_fs\<lparr>dirs := {''out''},
                 files := [''out/01_A_dot.png'' \<mapsto> Binary png_signature,
                           ''out/03_B.gif'' \<mapsto> Binary gif_signature]\<rparr>)
          (?path (?bs ! 0) png_signature)
       = Some (Binary png_signature)"
  proof (rule last)
    show "0 < length ?bs" by simp
  next
    have "?path (?bs ! j) b \<noteq> ?path (?bs ! 0) png_signature"
      if a: "0 < j \<and> j < length ?bs" and d: "?decode (?bs ! j) = Inr b" for j b
    proof -
      from a have "j = 1 \<or> j = 2" by auto
      then show ?thesis
      proof
        assume "j = 1"
        with d have "?decode (base64_entry_of bad_item) = Inr b" by simp
        with bad_item_decode show ?thesis by simp
      next
        assume j: "j = 2"
        with d have "?decode (base64_entry_of gif_item) = Inr b" by simp
        with gif_item_decode have b: "b = gif_signature" by simp
        have "?path (?bs ! j) b = ''out/03_B.gif''"
          unfolding j b using gif_item_path by simp
        moreover have "?path (?bs ! 0) png_signature = ''out/01_A_dot.png''"
          using png_item_path by simp
        ultimately show ?thesis by simp
      qed
    qed
    moreover have "?decode (?bs ! 0) = Inr png_signature"
      using png_item_decode by simp
    ultimately show "?decode (?bs ! 0) = Inr png_signature
      \<and> (\<forall>j. 0 < j \<and> j < length ?bs \<longrightarrow>
            (\<forall>b. ?decode (?bs ! j) = Inr b \<longrightarrow>
                 ?path (?bs ! j) b \<noteq> ?path (?bs ! 0) png_signature))"
      by blast
  qed
  then have "files (empty_fs\<lparr>dirs := {''out''},
                 files := [''out/01_A_dot.png'' \<mapsto> Binary png_signature,
                           ''out/03_B.gif'' \<mapsto> Binary gif_signature]\<rparr>) ''out/01_A_dot.png''
       = Some (Binary png_signature)"
    using png_item_path by simp
  then show ?thesis
    using example_separated example_saved
    by (simp only: example_entries simp_thms)
qed

section \<open>The file extension comes from the decoded bytes\<close>

lemma startswith_nth:
  "startswith s q \<Longrightarrow> i < length q \<Longrightarrow> s ! i = q ! i"
proof (induction s q arbitrary: i rule: startswith.induct)
  case (3 c s p ps)
  then show ?case by (cases i) auto
qed simp_all

lemma marker_not_inside:
  assumes "CHR '','' \<notin> set h" "h \<noteq> []"
  shows "\<not> startswith (h @ ''base64,'' @ p) ''base64,''"
proof
  assume "startswith (h @ ''base64,'' @ p) ''base64,''"
  from startswith_nth [OF this, of 6]
  have six: "(h @ ''base64,'' @ p) ! 6 = CHR '',''" by simp
  show False
  proof (cases "6 < length h")
    case True
    with six have "h ! 6 = CHR '',''" by (simp add: nth_append)
    with True assms(1) show False by (metis nth_mem)
  next
    case False
    define j where "j = 6 - length h"
    have j: "j < 6" using assms(2) by (cases h) (auto simp: j_def)
    from False six have "(''base64,'' @ p) ! j = CHR '',''"
      by (simp add: nth_append j_def)
    with j show False
      by (auto simp: less_Suc_eq numeral_eq_Suc)
  qed
qed

lemma strip_base64_prefix_header:
  assumes "CHR '','' \<notin> set h"
  shows "strip_base64_prefix (h @ ''base64,'' @ p) = p"
proof -
  have "contains (h @ ''base64,'' @ p) ''base64,''
      \<and> split_after (h @ ''base64,'' @ p) ''base64,'' = Some p"
    using assms
  proof (induction h)
    case Nil
    then show ?case by simp
  next
    case (Cons a h)
    from Cons.prems have n: "\<not> startswith ((a # h) @ ''base64,'' @ p) ''base64,''"
      by (intro marker_not_inside) auto
    from Cons have ih: "contains (h @ ''base64,'' @ p) ''base64,''
      \<and> split_after (h @ ''base64,'' @ p) ''base64,'' = Some p" by simp
    have "contains ((a # h) @ ''base64,'' @ p) ''base64,''"
      using ih by (simp del: startswith.simps)
    moreover have "split_after ((a # h) @ ''base64,'' @ p) ''base64,'' = Some p"
      using ih n by (simp del: startswith.simps)
    ultimately show ?case by blast
  qed
  then show ?thesis by (simp add: strip_base64_prefix_def)
qed

lemma detect_image_format_table:
  "(startswith image_bytes [0x89, 0x50, 0x4E, 0x47, 0x0D, 0x0A, 0x1A, 0x0A]
      \<longrightarrow> detect_image_format image_bytes = ''png'')
   \<and> (startswith image_bytes [0x47, 0x49, 0x46, 0x38]
      \<longrightarrow> detect_image_format image_bytes = ''gif'')
   \<and> (startswith image_bytes [0x52, 0x49, 0x46, 0x46] \<and> contains image_bytes [0x57, 0x45, 0x42, 0x50]
      \<longrightarrow> detect_image_format image_bytes = ''webp'')
   \<and> (startswith image_bytes [0xFF, 0xD8, 0xFF]
      \<longrightarrow> detect_image_format image_bytes = ''jpg'')
   \<and> (\<not> startswith image_bytes [0x89, 0x50, 0x4E, 0x47, 0x0D, 0x0A, 0x1A, 0x0A]
      \<and> \<not> startswith image_bytes [0x47, 0x49, 0x46, 0x38]
      \<and> \<not> (startswith image_bytes [0x52, 0x49, 0x46, 0x46] \<and> contains image_bytes [0x57, 0x45, 0x42, 0x50])
      \<and> \<not> startswith image_bytes [0xFF, 0xD8, 0xFF]
      \<longrightarrow> detect_image_format image_bytes = ''jpg'')"
  by (cases image_bytes) (auto simp: detect_image_format_def)


lemma startswith_set: "startswith s q \<Longrightarrow> set q \<subseteq> set s"
  by (induction s q rule: startswith.induct) auto

lemma contains_set: "contains s q \<Longrightarrow> set q \<subseteq> set s"
proof (induction s)
  case Nil
  then show ?case by simp
next
  case (Cons c s)
  then show ?case using startswith_set [of "c # s" q] by auto
qed

lemma strip_base64_prefix_no_comma:
  "CHR '','' \<notin> set p \<Longrightarrow> strip_base64_prefix p = p"
  using contains_set [of p "''base64,''"] by (auto simp: strip_base64_prefix_def)

lemma clean_base64_header:
  assumes "CHR '','' \<notin> set header"
  shows "clean_base64 (header @ ''base64,'' @ payload) = add_padding (remove_whitespace payload)"
proof -
  have "strip_base64_prefix (header @ ''base64,'' @ payload) = payload"
    using assms by (rule strip_base64_prefix_header)
  then show ?thesis by (simp only: clean_base64_def)
qed

lemma clean_base64_no_header:
  assumes "CHR '','' \<notin> set payload"
  shows "clean_base64 payload = add_padding (remove_whitespace payload)"
proof -
  have "strip_base64_prefix payload = payload"
    using assms by (rule strip_base64_prefix_no_comma)
  then show ?thesis by (simp only: clean_base64_def)
qed

lemma png_signature_decode:
  "b64decode (add_padding (remove_whitespace ''iVBORw0KGgo='')) = Inr png_signature"
  by code_simp

lemma png_signature_path:
  "GoogleSearchTool_sanitize_filename ''A dot'' = ''A_dot''"
  "path_join ''out'' ''01_A_dot.png'' = ''out/01_A_dot.png''"
  by code_simp+

text \<open>
  Claim C5: when the payload decodes and the file system refuses nothing, the persister
  writes the decoded bytes to a file whose extension is a function of those bytes alone:
  \<open>png\<close> for the PNG signature, \<open>gif\<close> for \<open>GIF8\<close>, \<open>webp\<close> for \<open>RIFF\<close> with \<open>WEBP\<close>
  somewhere in the bytes, \<open>jpg\<close> for \<open>FF D8 FF\<close> and \<open>jpg\<close> for anything else. The
  header of a data URI, the text up to \<open>base64,\<close> with the media type it declares, has
  no part in the result: the call returns the same under every header and without
  one. So a payload that decodes to bytes opening with the PNG signature is saved with
  the extension \<open>png\<close> whatever the header declares.
\<close>

theorem extension_from_magic_bytes:
  assumes "b64decode (add_padding (remove_whitespace payload)) = Inr image_bytes"
      and "CHR '','' \<notin> set header"
      and "makedirs_error fs folder_path = None"
      and "\<forall>p. open_error fs p = None" and "\<forall>p. write_error fs p = None"
  shows "(let file_path = path_join folder_path
                (filename_prefix @ ''_'' @ GoogleSearchTool_sanitize_filename title @ ''.'' @
                 detect_image_format image_bytes);
              saved = (fs\<lparr>dirs := insert folder_path (dirs fs),
                           files := (files fs)(file_path \<mapsto> Binary image_bytes)\<rparr>,
                       ''Saved: '' @ file_path)
          in save_base64_image fs (header @ ''base64,'' @ payload) folder_path filename_prefix title
               = saved
           \<and> (CHR '','' \<notin> set payload \<longrightarrow>
                save_base64_image fs payload folder_path filename_prefix title = saved))
       \<and> (startswith image_bytes [0x89, 0x50, 0x4E, 0x47, 0x0D, 0x0A, 0x1A, 0x0A]
            \<longrightarrow> detect_image_format image_bytes = ''png'')
       \<and> (startswith image_bytes [0x47, 0x49, 0x46, 0x38]
            \<longrightarrow> detect_image_format image_bytes = ''gif'')
       \<and> (startswith image_bytes [0x52, 0x49, 0x46, 0x46]
            \<and> contains image_bytes [0x57, 0x45, 0x42, 0x50]
            \<longrightarrow> detect_image_format image_bytes = ''webp'')
       \<and> (startswith image_bytes [0xFF, 0xD8, 0xFF]
            \<longrightarrow> detect_image_format image_bytes = ''jpg'')
       \<and> (\<not> startswith image_bytes [0x89, 0x50, 0x4E, 0x47, 0x0D, 0x0A, 0x1A, 0x0A]
            \<and> \<not> startswith image_bytes [0x47, 0x49, 0x46, 0x38]
            \<and> \<not> (startswith image_bytes [0x52, 0x49, 0x46, 0x46]
                  \<and> contains image_bytes [0x57, 0x45, 0x42, 0x50])
            \<and> \<not> startswith image_bytes [0xFF, 0xD8, 0xFF]
            \<longrightarrow> detect_image_format image_bytes = ''jpg'')"
proof -
  let ?file_path = "path_join folder_path
      (filename_prefix @ ''_'' @ GoogleSearchTool_sanitize_filename title @ ''.'' @
       detect_image_format image_bytes)"
  let ?saved = "(fs\<lparr>dirs := insert folder_path (dirs fs),
                    files := (files fs)(?file_path \<mapsto> Binary image_bytes)\<rparr>,
                ''Saved: '' @ ?file_path)"
  have decoded: "save_base64_image fs image_data folder_path filename_prefix title = ?saved"
    if "b64decode (clean_base64 image_data) = Inr image_bytes" for image_data
    using that assms(3,4,5) by (simp add: save_base64_image_saved)
  have with_header:
    "save_base64_image fs (header @ ''base64,'' @ payload) folder_path filename_prefix title
       = ?saved"
    by (rule decoded) (simp only: clean_base64_header [OF assms(2)] assms(1))
  have without: "save_base64_image fs payload folder_path filename_prefix title = ?saved"
    if "CHR '','' \<notin> set payload"
    by (rule decoded) (simp only: clean_base64_no_header [OF that] assms(1))
  from with_header without detect_image_format_table [of image_bytes]
  show ?thesis unfolding Let_def by blast
qed

theorem extension_from_magic_bytes_witness:
  "b64decode (add_padding (remove_whitespace ''iVBORw0KGgo='')) = Inr png_signature
   \<and> save_base64_image empty_fs ''data:image/gif;base64,iVBORw0KGgo='' ''out'' ''01'' ''A dot''
       = (empty_fs\<lparr>dirs := {''out''},
                   files := [''out/01_A_dot.png'' \<mapsto> Binary png_signature]\<rparr>,
          ''Saved: out/01_A_dot.png'')
   \<and> save_base64_image empty_fs ''iVBORw0KGgo='' ''out'' ''01'' ''A dot''
       = (empty_fs\<lparr>dirs := {''out''},
                   files := [''out/01_A_dot.png'' \<mapsto> Binary png_signature]\<rparr>,
          ''Saved: out/01_A_dot.png'')
   \<and> detect_image_format png_signature = ''png''"
proof -
  have h: "CHR '','' \<notin> set ''data:image/gif;''" by simp
  have m: "makedirs_error empty_fs ''out'' = None" by (simp add: empty_fs_def)
  have o: "\<forall>p. open_error empty_fs p = None" by (simp add: empty_fs_def)
  have w: "\<forall>p. write_error empty_fs p = None" by (simp add: empty_fs_def)
  have p: "startswith png_signature [0x89, 0x50, 0x4E, 0x47, 0x0D, 0x0A, 0x1A, 0x0A]"
    by (simp add: png_signature_def)
  from extension_from_magic_bytes [OF png_signature_decode h m o w, of "''01''" "''A dot''"]
    png_signature_decode p
  show ?thesis
    by (simp add: Let_def png_signature_path empty_fs_def)
qed

text \<open>
  Claim C8, on the code: both \<open>except\<close> branches return a string. The scrape path cuts
  the detail at 1000 characters; the Google-search path puts the whole detail in the
  string, so the length of its result grows with the response text without bound.
\<close>

theorem google_error_detail_not_capped:
  "length (GoogleSearchTool_run_except
      \<lparr>exc_str = s, exc_response_text = Some (replicate n CHR ''x'')\<rparr>) = 37 + n
   \<and> length (ScrapeUrlTool_run_except
      \<lparr>exc_str = s, exc_response_text = Some (replicate n CHR ''x'')\<rparr>) = 32 + min n 1000"
  by (simp add: GoogleSearchTool_run_except_def ScrapeUrlTool_run_except_def
      response_text_or_str_def min.commute)

section \<open>Properties of the link manifest writer\<close>

lemma link_blocks_concat:
  "link_blocks i ls = concat (map (\<lambda>(k, l). link_block k l) (zip [i ..< i + length ls] ls))"
proof (induction ls arbitrary: i)
  case Nil
  then show ?case by simp
next
  case (Cons l ls)
  have "[i ..< i + length (l # ls)] = i # [Suc i ..< Suc i + length ls]"
    by (simp add: upt_rec)
  then show ?case using Cons.IH [of "Suc i"] by simp
qed

lemma link_blocks_numbered:
  "link_blocks (Suc 0) ls =
     concat (map (\<lambda>(k, l). link_block k l) (zip [Suc 0 ..< Suc (length ls)] ls))"
  using link_blocks_concat [of "Suc 0" ls] by (simp del: upt_Suc)

text \<open>
  Claim C9: for no links the writer returns \<open>No image links to save\<close> and leaves the
  file system as it was. For a non-empty list, on a file system that refuses neither
  the directory nor the file, it writes one file, \<open>image_links.txt\<close> in the folder,
  and no other file changes. The file holds the title line, the line \<open># Generated:\<close>
  with the timestamp, an empty line, and then for the entries in the order of the
  input, numbered from 1, the block
  \<open><number>. Title: <title>\<close>, \<open>   URL: <url>\<close>, \<open>   Position: <position>\<close> and an
  empty line.
\<close>

theorem save_image_links_manifest:
  "save_image_links fs now [] folder_path = Inr (fs, ''No image links to save'')
   \<and> (image_links \<noteq> []
        \<and> makedirs_error fs folder_path = None
        \<and> open_error fs (path_join folder_path ''image_links.txt'') = None
        \<and> write_error fs (path_join folder_path ''image_links.txt'') = None
      \<longrightarrow> save_image_links fs now image_links folder_path =
            Inr (fs\<lparr>dirs := insert folder_path (dirs fs),
                     files := (files fs)(path_join folder_path ''image_links.txt'' \<mapsto>
                        Text (''# Image Links from Google Search'' @ [CHR 0x0A] @
                              ''# Generated: '' @ now @ [CHR 0x0A, CHR 0x0A] @
                              concat (map (\<lambda>(i, link_info).
                                   str_of_nat i @ ''. Title: '' @ link_title link_info @ [CHR 0x0A] @
                                   ''   URL: '' @ link_url link_info @ [CHR 0x0A] @
                                   ''   Position: '' @ str_of_int (link_position link_info) @
                                   [CHR 0x0A, CHR 0x0A])
                                 (zip [1 ..< Suc (length image_links)] image_links))))\<rparr>,
                 ''Saved '' @ str_of_nat (length image_links) @ '' image links to: '' @
                 path_join folder_path ''image_links.txt''))"
  by (simp add: save_image_links_def makedirs_def write_file_def manifest_text_def Let_def
      link_blocks_numbered link_block_def del: upt_Suc)

theorem save_image_links_manifest_witness:
  "save_image_links empty_fs ''2024-05-01T10:00:00''
     [\<lparr>link_url = ''https://example.com/a.png'', link_title = ''untitled'', link_position = 1\<rparr>,
      \<lparr>link_url = ''//cdn.example.com/b.jpg'', link_title = ''Second'', link_position = 12\<rparr>]
     ''out'' =
     Inr (empty_fs\<lparr>dirs := {''out''},
            files := [''out/image_links.txt'' \<mapsto>
              Text (''# Image Links from Google Search'' @ [CHR 0x0A] @
                    ''# Generated: 2024-05-01T10:00:00'' @ [CHR 0x0A, CHR 0x0A] @
                    ''1. Title: untitled'' @ [CHR 0x0A] @
                    ''   URL: https://example.com/a.png'' @ [CHR 0x0A] @
                    ''   Position: 1'' @ [CHR 0x0A, CHR 0x0A] @
                    ''2. Title: Second'' @ [CHR 0x0A] @
                    ''   URL: //cdn.example.com/b.jpg'' @ [CHR 0x0A] @
                    ''   Position: 12'' @ [CHR 0x0A, CHR 0x0A])]\<rparr>,
          ''Saved 2 image links to: out/image_links.txt'')"
proof -
  let ?links =
    "[\<lparr>link_url = ''https://example.com/a.png'', link_title = ''untitled'', link_position = 1\<rparr>,
      \<lparr>link_url = ''//cdn.example.com/b.jpg'', link_title = ''Second'', link_position = 12\<rparr>]"
  have p: "path_join ''out'' ''image_links.txt'' = ''out/image_links.txt''"
    by code_simp
  have n: "str_of_nat (Suc 0) = ''1''" "str_of_nat 2 = ''2''" "str_of_nat (Suc (Suc 0)) = ''2''"
    "str_of_int 1 = ''1''" "str_of_int 12 = ''12''"
    by code_simp+
  have h: "?links \<noteq> []
      \<and> makedirs_error empty_fs ''out'' = None
      \<and> open_error empty_fs (path_join ''out'' ''image_links.txt'') = None
      \<and> write_error empty_fs (path_join ''out'' ''image_links.txt'') = None"
    by (simp add: empty_fs_def)
  have z: "zip [1 ..< Suc (length ?links)] ?links = [(1, ?links ! 0), (2, ?links ! 1)]"
    by (simp add: upt_rec)
  from save_image_links_manifest [of empty_fs "''2024-05-01T10:00:00''" "''out''" ?links,
        THEN conjunct2, THEN mp, OF h]
  show ?thesis
    unfolding z by (simp add: p n empty_fs_def)
qed

section \<open>Properties of the coercer\<close>














lemma char_at_replicate:
  "idx < n \<Longrightarrow> char_at (replicate n c) idx = Some c"
  by (simp add: char_at_def)

lemma skip_whitespace_replicate:
  "\<not> is_json_whitespace c \<Longrightarrow> skip_whitespace (replicate n c) idx = idx"
  by (simp add: skip_whitespace_def takeWhile_replicate)

lemma scan_once_nested_arrays:
  "idx + depth < n \<Longrightarrow> 3 * depth + 1 \<le> fuel \<Longrightarrow>
   scan_once fuel depth max_digits (replicate n (CHR 0x5B)) idx =
     Raise (RecursionError,
       ''maximum recursion depth exceeded while decoding a JSON array from a unicode string'')"
proof (induction depth arbitrary: idx fuel)
  case 0
  then obtain f where "fuel = Suc f" by (cases fuel) auto
  with 0 show ?case by (simp add: char_at_replicate)
next
  case (Suc depth)
  then obtain f where f: "fuel = Suc (Suc (Suc f))" "3 * depth + 1 \<le> f"
    by (cases fuel; cases "fuel - 1"; cases "fuel - 2") auto
  have ws: "\<not> is_json_whitespace (CHR 0x5B)" by (simp add: is_json_whitespace_def)
  from Suc.prems have i: "idx < n" "Suc idx < n" "Suc idx + depth < n" by simp_all
  from Suc.IH [OF i(3) f(2)] show ?case
    unfolding f(1)
    by (simp add: char_at_replicate i skip_whitespace_replicate [OF ws])
qed

lemma json_loads_nested_arrays:
  "json_loads depth max_digits (replicate (Suc depth) (CHR 0x5B)) =
     Some (Inl (RecursionError,
       ''maximum recursion depth exceeded while decoding a JSON array from a unicode string''))"
proof -
  have ws: "\<not> is_json_whitespace (CHR 0x5B)" by (simp add: is_json_whitespace_def)
  have sk: "skip_whitespace (replicate (Suc depth) (CHR 0x5B)) 0 = 0"
    by (rule skip_whitespace_replicate [OF ws])
  have "scan_once (3 * length (replicate (Suc depth) (CHR 0x5B)) + 3) depth max_digits
          (replicate (Suc depth) (CHR 0x5B)) 0 =
        Raise (RecursionError,
          ''maximum recursion depth exceeded while decoding a JSON array from a unicode string'')"
    by (rule scan_once_nested_arrays) simp_all
  then show ?thesis
    unfolding json_loads_def sk by simp
qed

lemma json_loads_not_json:
  "json_loads depth max_digits ''not parseable at all'' =
     Some (Inl (JSONDecodeError, ''Expecting value: line 1 column 1 (char 0)''))"
  by code_simp

lemma not_parseable_shape:
  "\<not> startswith (strip ''not parseable at all'') [CHR 0x7B]"
  "\<not> contains ''not parseable at all'' ''=''"
  by code_simp+

text \<open>
  Claim C4, on the code. What the claim says of the inputs that no strategy handles
  holds: a value that is no string is returned as it is, and so is the string
  \<open>not parseable at all\<close>. But the first \<open>try\<close> block catches \<open>json.JSONDecodeError\<close>
  only: on a text of arrays nested deeper than the interpreter can follow,
  \<open>json.loads\<close> raises \<open>RecursionError\<close>, and the coercer raises it too.
\<close>

theorem str_to_dict_validator_raises:
  "str_to_dict_validator (rt\<lparr>recursion_limit := depth\<rparr>) (PyStr (replicate (Suc depth) (CHR 0x5B)))
     = Some (Inl (RecursionError,
         ''maximum recursion depth exceeded while decoding a JSON array from a unicode string''))
   \<and> str_to_dict_validator rt (PyStr ''not parseable at all'')
       = Some (Inr (PyStr ''not parseable at all''))
   \<and> str_to_dict_validator rt PyNone = Some (Inr PyNone)
   \<and> str_to_dict_validator rt (PyBool b) = Some (Inr (PyBool b))
   \<and> str_to_dict_validator rt (PyInt n) = Some (Inr (PyInt n))
   \<and> str_to_dict_validator rt (PyFloat t) = Some (Inr (PyFloat t))
   \<and> str_to_dict_validator rt (PyBytes bs) = Some (Inr (PyBytes bs))
   \<and> str_to_dict_validator rt (PyList l) = Some (Inr (PyList l))
   \<and> str_to_dict_validator rt (PyTuple l) = Some (Inr (PyTuple l))
   \<and> str_to_dict_validator rt (PySet l) = Some (Inr (PySet l))
   \<and> str_to_dict_validator rt (PyDict d) = Some (Inr (PyDict d))"
proof -
  have "str_to_dict_validator (rt\<lparr>recursion_limit := depth\<rparr>)
          (PyStr (replicate (Suc depth) (CHR 0x5B)))
     = Some (Inl (RecursionError,
         ''maximum recursion depth exceeded while decoding a JSON array from a unicode string''))"
    using json_loads_nested_arrays [of depth "int_max_str_digits rt"]
    by (simp add: str_to_dict_validator_def)
  moreover have "str_to_dict_validator rt (PyStr ''not parseable at all'')
       = Some (Inr (PyStr ''not parseable at all''))"
    by (simp add: str_to_dict_validator_def json_loads_not_json try_literal_eval_def
        try_url_parameters_def not_parseable_shape)
  ultimately show ?thesis
    by (simp add: str_to_dict_validator_def)
qed


end
